theory Spec2Isabelle
  imports Complex_Main "HOL-Library.Word"
begin

section \<open>JavaScript strings and values\<close>

text \<open>
  A JavaScript string is a sequence of UTF-16 code units. The regular expression of
  \<open>removeTimestamp\<close> and \<open>String.prototype.trim\<close> both depend on code units above
  the Latin-1 range (U+2028, U+2029, ...), so a code unit is a 16-bit word. \<open>js\<close>
  embeds an ASCII literal.
\<close>

type_synonym code_unit = "16 word"
type_synonym jsstring = "code_unit list"

definition js :: "string \<Rightarrow> jsstring" where
  "js s = map (\<lambda>c. of_nat (of_char c)) s"

text \<open>
  The values the workflow handles: what \<open>JSON.parse\<close> returns, \<open>undefined\<close> (the
  result of reading a missing property), and the built-in method a property read on an
  array can return. Numbers are doubles in the source; the workflow only compares them
  with zero, so they are reals here. An object is the list of its own properties, read
  with \<open>map_of\<close>.
\<close>

datatype jsval =
    JUndefined
  | JNull
  | JBool bool
  | JNum real
  | JStr jsstring
  | JArr "jsval list"
  | JObj "(jsstring \<times> jsval) list"
  | JFunction

datatype error =
    MissingInput jsstring   \<comment> \<open>\<open>Error("Missing required input: <name>")\<close>\<close>
  | HttpError nat jsstring  \<comment> \<open>\<open>Error("HTTP <status>: <body>")\<close>\<close>
  | RequestError jsstring   \<comment> \<open>the error of \<open>req.on("error")\<close>, rejected once the budget is spent\<close>
  | ThrownError jsstring    \<comment> \<open>an exception thrown while the request is built\<close>
  | SprintNotFound jsstring \<comment> \<open>\<open>Error('Sprint "<name>" not found')\<close>\<close>
  | TypeError               \<comment> \<open>a property read on \<open>undefined\<close>/\<open>null\<close>, a call of a non-function,
                                a conversion of an object that has no callable \<open>toString\<close>\<close>
  | URIError                \<comment> \<open>\<open>encodeURIComponent\<close> on a string with an unpaired surrogate\<close>

text \<open>
  Built-ins of the JavaScript runtime that the source calls and that are no part of the
  repository are parameters of the model.
\<close>

record builtins =
  json_parse :: "jsstring \<Rightarrow> jsval option"
    \<comment> \<open>\<open>JSON.parse\<close>; \<open>None\<close> when it throws a SyntaxError\<close>
  coerced_gt_zero :: "jsval \<Rightarrow> bool"
    \<comment> \<open>\<open>v > 0\<close> for a string \<open>v\<close>, and for an array \<open>v\<close> whose conversion to a string
        returns: the string is converted to a number and compared\<close>

text \<open>
  The property read \<open>v.k\<close>, for the property names the source reads (\<open>issues\<close>,
  \<open>values\<close>, \<open>length\<close>, \<open>fields\<close>, \<open>description\<close>, \<open>key\<close>, \<open>name\<close>, \<open>id\<close>): a read
  on \<open>undefined\<close> or \<open>null\<close> throws, an object gives its own property, arrays and
  strings have a \<open>length\<close>, and \<open>values\<close> of an array is a built-in method.
\<close>

fun get_prop :: "jsval \<Rightarrow> jsstring \<Rightarrow> error + jsval" where
  "get_prop JUndefined k = Inl TypeError"
| "get_prop JNull k = Inl TypeError"
| "get_prop (JObj kvs) k = Inr (case map_of kvs k of Some v \<Rightarrow> v | None \<Rightarrow> JUndefined)"
| "get_prop (JArr xs) k =
     Inr (if k = js ''length'' then JNum (real (length xs))
          else if k = js ''values'' \<or> k = js ''find'' then JFunction
          else JUndefined)"
| "get_prop (JStr s) k =
     Inr (if k = js ''length'' then JNum (real (length s))
          else if k = js ''replace'' then JFunction
          else JUndefined)"
| "get_prop (JBool b) k = Inr JUndefined"
| "get_prop (JNum n) k = Inr JUndefined"
| "get_prop JFunction k = Inr JUndefined"

text \<open>The element read \<open>v[0]\<close>.\<close>

fun index0 :: "jsval \<Rightarrow> error + jsval" where
  "index0 JUndefined = Inl TypeError"
| "index0 JNull = Inl TypeError"
| "index0 (JArr xs) = Inr (case xs of [] \<Rightarrow> JUndefined | x # _ \<Rightarrow> x)"
| "index0 (JStr s) = Inr (case s of [] \<Rightarrow> JUndefined | c # _ \<Rightarrow> JStr [c])"
| "index0 (JObj kvs) = Inr (case map_of kvs (js ''0'') of Some v \<Rightarrow> v | None \<Rightarrow> JUndefined)"
| "index0 (JBool b) = Inr JUndefined"
| "index0 (JNum n) = Inr JUndefined"
| "index0 JFunction = Inr JUndefined"

text \<open>ToBoolean, as \<open>if (v)\<close>, \<open>!v\<close> and \<open>v || w\<close> apply it.\<close>

fun truthy :: "jsval \<Rightarrow> bool" where
  "truthy JUndefined = False"
| "truthy JNull = False"
| "truthy (JBool b) = b"
| "truthy (JNum n) = (n \<noteq> 0)"
| "truthy (JStr s) = (s \<noteq> [])"
| "truthy (JArr xs) = True"
| "truthy (JObj kvs) = True"
| "truthy JFunction = True"

definition js_or :: "jsval \<Rightarrow> jsval \<Rightarrow> jsval" where
  "js_or v w = (if truthy v then v else w)"

text \<open>
  ToString, as a template literal applies it to an interpolated value, either returns a
  string or throws. \<open>JSON.parse\<close> never returns a function, so an own property
  \<open>toString\<close> of a parsed object is not callable: the conversion of such an object
  finds no method that returns a primitive (the inherited \<open>valueOf\<close> returns the object
  itself) and throws a TypeError. An object without an own \<open>toString\<close> converts to
  \<open>"[object Object]"\<close>. An array converts by \<open>join\<close>, which converts every element
  but \<open>undefined\<close> and \<open>null\<close>. Every other value converts to a string.
\<close>

fun throws_ToString :: "jsval \<Rightarrow> bool" and throws_join :: "jsval list \<Rightarrow> bool" where
  "throws_ToString (JObj kvs) = (map_of kvs (js ''toString'') \<noteq> None)"
| "throws_ToString (JArr xs) = throws_join xs"
| "throws_ToString JUndefined = False"
| "throws_ToString JNull = False"
| "throws_ToString (JBool b) = False"
| "throws_ToString (JNum n) = False"
| "throws_ToString (JStr s) = False"
| "throws_ToString JFunction = False"
| "throws_join [] = False"
| "throws_join (x # xs) =
     ((x \<noteq> JUndefined \<and> x \<noteq> JNull \<and> throws_ToString x) \<or> throws_join xs)"

text \<open>
  The comparison \<open>v > 0\<close>: on a number it is the comparison of numbers; \<open>undefined\<close>
  and a function convert to NaN, \<open>null\<close> to 0, a boolean to 0 or 1. An object or an
  array is first converted to a primitive, which throws exactly when ToString throws on
  it; an object that converts gives \<open>"[object Object]"\<close>, which is NaN as a number.
  What a string is as a number is left to the runtime.
\<close>

fun js_gt_zero :: "'b builtins_scheme \<Rightarrow> jsval \<Rightarrow> error + bool" where
  "js_gt_zero B (JNum n) = Inr (n > 0)"
| "js_gt_zero B JUndefined = Inr False"
| "js_gt_zero B JNull = Inr False"
| "js_gt_zero B (JBool b) = Inr b"
| "js_gt_zero B JFunction = Inr False"
| "js_gt_zero B (JStr s) = Inr (coerced_gt_zero B (JStr s))"
| "js_gt_zero B (JArr xs) =
     (if throws_ToString (JArr xs) then Inl TypeError else Inr (coerced_gt_zero B (JArr xs)))"
| "js_gt_zero B (JObj kvs) =
     (if throws_ToString (JObj kvs) then Inl TypeError else Inr False)"

section \<open>Description Normalizer: \<open>removeTimestamp\<close>\<close>

text \<open>
  \<^verbatim>\<open>description.replace(/\n\nLast updated: .+$/, "")\<close>

  The expression has no flags. \<open>.\<close> matches one code unit that is no line terminator
  (U+000A, U+000D, U+2028, U+2029), and \<open>$\<close> matches at the end of the input only. So
  the expression matches at a position exactly when the label stands there and what
  follows it, up to the end of the input, is a non-empty run without line terminators.
  \<open>replace\<close> takes the leftmost position that matches; the match reaches the end of
  the input, so what remains is the text before that position.
\<close>

definition is_line_terminator :: "code_unit \<Rightarrow> bool" where
  "is_line_terminator c = (c = 0x000A \<or> c = 0x000D \<or> c = 0x2028 \<or> c = 0x2029)"

definition timestamp_label :: jsstring where
  "timestamp_label = js ''\<newline>\<newline>Last updated: ''"

fun strip_prefix :: "'a list \<Rightarrow> 'a list \<Rightarrow> 'a list option" where
  "strip_prefix [] s = Some s"
| "strip_prefix (p # ps) [] = None"
| "strip_prefix (p # ps) (c # cs) = (if p = c then strip_prefix ps cs else None)"

definition dot_plus_to_end :: "jsstring \<Rightarrow> bool" where
  "dot_plus_to_end rest = (rest \<noteq> [] \<and> list_all (\<lambda>c. \<not> is_line_terminator c) rest)"

definition match_here :: "jsstring \<Rightarrow> bool" where
  "match_here s = (case strip_prefix timestamp_label s of
      None \<Rightarrow> False
    | Some rest \<Rightarrow> dot_plus_to_end rest)"

fun removeTimestamp :: "jsstring \<Rightarrow> jsstring" where
  "removeTimestamp [] = []"
| "removeTimestamp (c # cs) = (if match_here (c # cs) then [] else c # removeTimestamp cs)"

text \<open>
  \<open>removeTimestamp\<close> applied to a value that need not be a string, as in
  \<open>removeTimestamp(existingDescription)\<close>: \<open>replace\<close> is a method of strings only.
\<close>

fun call_removeTimestamp :: "jsval \<Rightarrow> error + jsstring" where
  "call_removeTimestamp (JStr s) = Inr (removeTimestamp s)"
| "call_removeTimestamp v = Inl TypeError"

text \<open>A text ends in a trailer: the expression matches at some position of it.\<close>

fun has_trailer :: "jsstring \<Rightarrow> bool" where
  "has_trailer [] = False"
| "has_trailer (c # cs) = (match_here (c # cs) \<or> has_trailer cs)"

section \<open>Configuration\<close>

text \<open>
  The inputs of the action, as \<open>core.getInput\<close> returns them: an input that is not given
  is the empty string. \<open>retry_count\<close> is declared in \<open>action.yml\<close>; \<open>index.js\<close> has no
  \<open>core.getInput("retry_count")\<close>.
\<close>

record config =
  jira_base_url :: jsstring
  jira_user_email :: jsstring
  jira_api_token :: jsstring
  jira_project_key :: jsstring
  issue_summary :: jsstring
  issue_description :: jsstring
  board_id :: jsstring
  sprint_name :: jsstring
  retry_count :: jsstring

definition requiredInputs :: "(jsstring \<times> (config \<Rightarrow> jsstring)) list" where
  "requiredInputs =
     [(js ''jira_base_url'', jira_base_url),
      (js ''jira_user_email'', jira_user_email),
      (js ''jira_api_token'', jira_api_token),
      (js ''jira_project_key'', jira_project_key),
      (js ''issue_summary'', issue_summary),
      (js ''issue_description'', issue_description),
      (js ''board_id'', board_id),
      (js ''sprint_name'', sprint_name)]"

fun validate_loop :: "(jsstring \<times> (config \<Rightarrow> jsstring)) list \<Rightarrow> config \<Rightarrow> error + unit" where
  "validate_loop [] cfg = Inr ()"
| "validate_loop ((name, input) # rest) cfg =
     (if input cfg = [] then Inl (MissingInput name) else validate_loop rest cfg)"

definition validateInputs :: "config \<Rightarrow> error + unit" where
  "validateInputs cfg = validate_loop requiredInputs cfg"

section \<open>Transport: \<open>sendHttpRequest\<close>\<close>

datatype http_method = GET | POST | PUT

text \<open>
  The path of a request, one constructor for each template literal of the source, with
  the values it interpolates:
  \<^item> \<open>SearchPath jql\<close> is \<^verbatim>\<open>rest/api/2/search?jql=${encodeURIComponent(jql)}&fields=description\<close>,
  \<^item> \<open>IssuePath key\<close> is \<^verbatim>\<open>rest/api/2/issue/${issueKey}\<close>,
  \<^item> \<open>CreateIssuePath\<close> is \<^verbatim>\<open>rest/api/2/issue\<close>,
  \<^item> \<open>BoardSprintsPath board\<close> is \<^verbatim>\<open>rest/agile/1.0/board/${boardId}/sprint?state=future\<close>,
  \<^item> \<open>SprintIssuePath sprint\<close> is \<^verbatim>\<open>rest/agile/1.0/sprint/${sprintId}/issue\<close>.
\<close>

datatype route =
    SearchPath jsstring
  | IssuePath jsval
  | CreateIssuePath
  | BoardSprintsPath jsstring
  | SprintIssuePath jsval

text \<open>
  What one attempt of a request meets: a response with its status code and body (the
  \<open>end\<close> event), a network-level error (the \<open>error\<close> event of the request), or an
  exception thrown while the request is built (\<open>new URL(jiraBaseUrl)\<close>,
  \<open>https.request\<close>), which rejects the promise at once.
\<close>

datatype outcome =
    Response nat jsstring
  | NetworkError jsstring
  | Thrown jsstring

text \<open>
  The remote service and the network are a transition system on a state \<open>'w\<close> of their
  own: every attempt gets an outcome and moves that state.
\<close>

type_synonym 'w service = "'w \<Rightarrow> http_method \<Rightarrow> route \<Rightarrow> jsval option \<Rightarrow> outcome \<times> 'w"

text \<open>
  What a run does that can be observed: each call of \<open>sendHttpRequest\<close> with its five
  arguments, each \<open>setTimeout\<close> wait with its duration, the value given to
  \<open>core.setOutput("issue_key", _)\<close> and the failure reported by \<open>core.setFailed\<close>.
  Log lines (\<open>core.debug\<close>, \<open>core.info\<close>, \<open>core.warning\<close>, \<open>core.error\<close>) have no
  effect on the control flow and are left out.
\<close>

datatype event =
    Attempt http_method route "jsval option" nat nat
  | Wait nat

record 'w state =
  world :: 'w
  trace :: "event list"
  issue_key :: "jsval option"
  failed :: "error option"

definition initial :: "'w \<Rightarrow> 'w state" where
  "initial w = \<lparr>world = w, trace = [], issue_key = None, failed = None\<rparr>"

text \<open>\<open>String.prototype.trim\<close> removes white space and line terminators at both ends.\<close>

definition is_white_space :: "code_unit \<Rightarrow> bool" where
  "is_white_space c =
     (c = 0x0009 \<or> c = 0x000B \<or> c = 0x000C \<or> c = 0x0020 \<or> c = 0x00A0 \<or> c = 0x1680
      \<or> (0x2000 \<le> c \<and> c \<le> 0x200A) \<or> c = 0x202F \<or> c = 0x205F \<or> c = 0x3000
      \<or> c = 0xFEFF \<or> is_line_terminator c)"

definition trim :: "jsstring \<Rightarrow> jsstring" where
  "trim s = rev (dropWhile is_white_space (rev (dropWhile is_white_space s)))"

text \<open>The value a 2xx response resolves to (lines 62 to 75).\<close>

definition resolve_body :: "'b builtins_scheme \<Rightarrow> jsstring \<Rightarrow> jsval" where
  "resolve_body B responseBody =
     (if trim responseBody = [] then JStr []
      else case json_parse B responseBody of
             Some parsedData \<Rightarrow> parsedData
           | None \<Rightarrow> JStr responseBody)"

function sendHttpRequest ::
  "'b builtins_scheme \<Rightarrow> 'w service \<Rightarrow> http_method \<Rightarrow> route \<Rightarrow> jsval option \<Rightarrow> nat \<Rightarrow> nat
     \<Rightarrow> 'w state \<Rightarrow> (error + jsval) \<times> 'w state"
where
  "sendHttpRequest B srv method path data retries delay s =
     (case srv (world s) method path data of (out, w') \<Rightarrow>
        (let s1 = s\<lparr>world := w', trace := trace s @ [Attempt method path data retries delay]\<rparr>
         in (case out of
               Response statusCode responseBody \<Rightarrow>
                 (if 200 \<le> statusCode \<and> statusCode < 300
                  then (Inr (resolve_body B responseBody), s1)
                  else if statusCode = 429 \<and> retries > 0
                  then sendHttpRequest B srv method path data (retries - 1) (delay * 2)
                         (s1\<lparr>trace := trace s1 @ [Wait delay]\<rparr>)
                  else (Inl (HttpError statusCode responseBody), s1))
             | NetworkError e \<Rightarrow>
                 (if retries > 0
                  then sendHttpRequest B srv method path data (retries - 1) (delay * 2)
                         (s1\<lparr>trace := trace s1 @ [Wait delay]\<rparr>)
                  else (Inl (RequestError e), s1))
             | Thrown e \<Rightarrow> (Inl (ThrownError e), s1))))"
  by pat_completeness auto
termination
  by (relation "measure (\<lambda>(B, srv, method, path, data, retries, delay, s). retries)") auto

declare sendHttpRequest.simps [simp del]

text \<open>
  No call site passes \<open>retries\<close> or \<open>delay\<close>: every request starts with the default
  arguments \<open>retries = 3\<close> and \<open>delay = 1000\<close>, written out at the calls below.
\<close>

section \<open>Issue Query, Sprint Resolver and the mutating calls\<close>

text \<open>
  \<open>encodeURIComponent\<close> throws a URIError on a string with an unpaired surrogate, and
  on no other string: a leading surrogate (D800 to DBFF) has to be followed by a trailing
  one (DC00 to DFFF), and a trailing one has to follow a leading one.
\<close>

definition is_leading_surrogate :: "code_unit \<Rightarrow> bool" where
  "is_leading_surrogate c = (0xD800 \<le> c \<and> c \<le> 0xDBFF)"

definition is_trailing_surrogate :: "code_unit \<Rightarrow> bool" where
  "is_trailing_surrogate c = (0xDC00 \<le> c \<and> c \<le> 0xDFFF)"

fun well_formed_utf16 :: "jsstring \<Rightarrow> bool" where
  "well_formed_utf16 [] = True"
| "well_formed_utf16 [c] = (\<not> is_leading_surrogate c \<and> \<not> is_trailing_surrogate c)"
| "well_formed_utf16 (c # d # cs) =
     (if is_leading_surrogate c then is_trailing_surrogate d \<and> well_formed_utf16 cs
      else \<not> is_trailing_surrogate c \<and> well_formed_utf16 (d # cs))"

text \<open>
  The arguments of a call are evaluated before the call: a template literal that throws
  ends the helper before \<open>sendHttpRequest\<close> is called, and nothing is added to the trace.
\<close>

definition searchJiraIssues ::
  "'b builtins_scheme \<Rightarrow> 'w service \<Rightarrow> jsstring \<Rightarrow> 'w state \<Rightarrow> (error + jsval) \<times> 'w state"
where
  "searchJiraIssues B srv jql s =
     (if \<not> well_formed_utf16 jql then (Inl URIError, s)
      else
        (case sendHttpRequest B srv GET (SearchPath jql) None 3 1000 s of
           (Inl e, s') \<Rightarrow> (Inl e, s')
         | (Inr response, s') \<Rightarrow> (get_prop response (js ''issues''), s')))"

text \<open>
  Line 130 interpolates \<open>issueKey\<close> once more after the request; the conversion has
  returned at line 125 by then, and it returns again.
\<close>

definition updateJiraIssue ::
  "'b builtins_scheme \<Rightarrow> 'w service \<Rightarrow> jsval \<Rightarrow> jsstring \<Rightarrow> 'w state
     \<Rightarrow> (error + jsval) \<times> 'w state"
where
  "updateJiraIssue B srv issueKey description s =
     (if throws_ToString issueKey then (Inl TypeError, s)
      else
        (case sendHttpRequest B srv PUT (IssuePath issueKey)
                (Some (JObj [(js ''fields'', JObj [(js ''description'', JStr description)])]))
                3 1000 s of
           (Inl e, s') \<Rightarrow> (Inl e, s')
         | (Inr response, s') \<Rightarrow> (Inr (JBool True), s')))"

text \<open>
  \<open>response.values.find((s) => s.name === sprintName)\<close>: the elements are visited in
  order, the read of \<open>name\<close> throws on a \<open>null\<close> element, and the result is the first
  element whose name is the string \<open>sprintName\<close>, or \<open>undefined\<close>. On anything but an
  array \<open>find\<close> is no function and the call throws.
\<close>

fun find_sprint :: "jsval list \<Rightarrow> jsstring \<Rightarrow> error + jsval" where
  "find_sprint [] sprintName = Inr JUndefined"
| "find_sprint (x # xs) sprintName =
     (case get_prop x (js ''name'') of
        Inl e \<Rightarrow> Inl e
      | Inr name \<Rightarrow> if name = JStr sprintName then Inr x else find_sprint xs sprintName)"

fun call_find :: "jsval \<Rightarrow> jsstring \<Rightarrow> error + jsval" where
  "call_find (JArr xs) sprintName = find_sprint xs sprintName"
| "call_find v sprintName = Inl TypeError"

definition getSprintId ::
  "'b builtins_scheme \<Rightarrow> 'w service \<Rightarrow> config \<Rightarrow> jsstring \<Rightarrow> 'w state
     \<Rightarrow> (error + jsval) \<times> 'w state"
where
  "getSprintId B srv cfg sprintName s =
     (case sendHttpRequest B srv GET (BoardSprintsPath (board_id cfg)) None
             3 1000 s of
        (Inl e, s') \<Rightarrow> (Inl e, s')
      | (Inr response, s') \<Rightarrow>
          (case get_prop response (js ''values'') of
             Inl e \<Rightarrow> (Inl e, s')
           | Inr vals \<Rightarrow>
               (case call_find vals sprintName of
                  Inl e \<Rightarrow> (Inl e, s')
                | Inr sprint \<Rightarrow>
                    if truthy sprint then (get_prop sprint (js ''id''), s')
                    else (Inl (SprintNotFound sprintName), s'))))"

text \<open>
  Line 232 interpolates \<open>response.key\<close> into a log line after the POST has been
  answered.
\<close>

definition createNewJiraIssue ::
  "'b builtins_scheme \<Rightarrow> 'w service \<Rightarrow> config \<Rightarrow> jsstring \<Rightarrow> jsval \<Rightarrow> 'w state
     \<Rightarrow> (error + jsval) \<times> 'w state"
where
  "createNewJiraIssue B srv cfg description sprintId s =
     (let issueData =
        JObj [(js ''fields'',
               JObj [(js ''project'', JObj [(js ''key'', JStr (jira_project_key cfg))]),
                     (js ''summary'', JStr (issue_summary cfg)),
                     (js ''description'', JStr description),
                     (js ''issuetype'', JObj [(js ''name'', JStr (js ''Story''))]),
                     (js ''sprint'', sprintId)])]
      in case sendHttpRequest B srv POST CreateIssuePath (Some issueData)
                3 1000 s of
           (Inl e, s') \<Rightarrow> (Inl e, s')
         | (Inr response, s') \<Rightarrow>
             (case get_prop response (js ''key'') of
                Inl e \<Rightarrow> (Inl e, s')
              | Inr key \<Rightarrow>
                  if throws_ToString key then (Inl TypeError, s') else (Inr response, s')))"

text \<open>
  Line 237 interpolates \<open>sprintId\<close> into the path before the request is made; line 240
  interpolates \<open>issueKey\<close> into a log line after it has been answered.
\<close>

definition addIssueToSprint ::
  "'b builtins_scheme \<Rightarrow> 'w service \<Rightarrow> jsval \<Rightarrow> jsval \<Rightarrow> 'w state
     \<Rightarrow> (error + unit) \<times> 'w state"
where
  "addIssueToSprint B srv issueKey sprintId s =
     (if throws_ToString sprintId then (Inl TypeError, s)
      else
        (case sendHttpRequest B srv POST (SprintIssuePath sprintId)
                (Some (JObj [(js ''issues'', JArr [issueKey])]))
                3 1000 s of
           (Inl e, s') \<Rightarrow> (Inl e, s')
         | (Inr response, s') \<Rightarrow>
             if throws_ToString issueKey then (Inl TypeError, s') else (Inr (), s')))"

section \<open>Upsert Orchestrator: \<open>createOrUpdateJiraStory\<close>\<close>

definition jql_of :: "config \<Rightarrow> jsstring" where
  \<open>jql_of cfg =
     js ''project = '' @ jira_project_key cfg @ js '' AND summary ~ "'' @ issue_summary cfg
       @ js ''" AND status != Done''\<close>

text \<open>
  \<open>formattedTimestamp\<close> is \<open>formatDateTimeGerman(new Date())\<close>: the clock and the
  locale formatting are outside the repository, so the formatted text, which they
  are taken to return, is an input of the run.
\<close>

definition updatedDescription_of :: "config \<Rightarrow> jsstring \<Rightarrow> jsstring" where
  "updatedDescription_of cfg formattedTimestamp =
     issue_description cfg @ js ''\<newline>\<newline>Zuletzt aktualisiert: '' @ formattedTimestamp"

text \<open>
  Lines 190 to 208, the branch taken when \<open>existingIssues.length > 0\<close>.
  \<open>existingIssue.key\<close> is read once here; the source reads it at each use, after the
  read of \<open>existingIssue.fields\<close> has shown that \<open>existingIssue\<close> is neither
  \<open>undefined\<close> nor \<open>null\<close>, so every one of those reads gives this value. When
  nothing has changed, line 203 interpolates the key into a log line before the output
  is set.
\<close>

definition existing_issue_branch ::
  "'b builtins_scheme \<Rightarrow> 'w service \<Rightarrow> config \<Rightarrow> jsstring \<Rightarrow> jsval \<Rightarrow> jsval \<Rightarrow> 'w state
     \<Rightarrow> (error + unit) \<times> 'w state"
where
  "existing_issue_branch B srv cfg updatedDescription sprintId existingIssues s =
     (case index0 existingIssues of
        Inl e \<Rightarrow> (Inl e, s)
      | Inr existingIssue \<Rightarrow>
     (case get_prop existingIssue (js ''fields'') of
        Inl e \<Rightarrow> (Inl e, s)
      | Inr issueFields \<Rightarrow>
     (case get_prop issueFields (js ''description'') of
        Inl e \<Rightarrow> (Inl e, s)
      | Inr description \<Rightarrow>
     (let existingDescription = js_or description (JStr []) in
     (case call_removeTimestamp existingDescription of
        Inl e \<Rightarrow> (Inl e, s)
      | Inr stripped \<Rightarrow>
     (case get_prop existingIssue (js ''key'') of
        Inl e \<Rightarrow> (Inl e, s)
      | Inr key \<Rightarrow>
          if stripped \<noteq> removeTimestamp (issue_description cfg) then
            (case updateJiraIssue B srv key updatedDescription s of
               (Inl e, s1) \<Rightarrow> (Inl e, s1)
             | (Inr updated, s1) \<Rightarrow>
                 (case addIssueToSprint B srv key sprintId s1 of
                    (Inl e, s2) \<Rightarrow> (Inl e, s2)
                  | (Inr added, s2) \<Rightarrow> (Inr (), s2\<lparr>issue_key := Some key\<rparr>)))
          else if throws_ToString key then (Inl TypeError, s)
          else (Inr (), s\<lparr>issue_key := Some key\<rparr>)))))))"

text \<open>Lines 210 to 213, the branch taken otherwise.\<close>

definition new_issue_branch ::
  "'b builtins_scheme \<Rightarrow> 'w service \<Rightarrow> config \<Rightarrow> jsstring \<Rightarrow> jsval \<Rightarrow> 'w state
     \<Rightarrow> (error + unit) \<times> 'w state"
where
  "new_issue_branch B srv cfg updatedDescription sprintId s =
     (case createNewJiraIssue B srv cfg updatedDescription sprintId s of
        (Inl e, s1) \<Rightarrow> (Inl e, s1)
      | (Inr newIssue, s1) \<Rightarrow>
          (case get_prop newIssue (js ''key'') of
             Inl e \<Rightarrow> (Inl e, s1)
           | Inr key \<Rightarrow>
               (case addIssueToSprint B srv key sprintId s1 of
                  (Inl e, s2) \<Rightarrow> (Inl e, s2)
                | (Inr added, s2) \<Rightarrow> (Inr (), s2\<lparr>issue_key := Some key\<rparr>))))"

text \<open>The \<open>try\<close> block of \<open>createOrUpdateJiraStory\<close>, lines 174 to 213.\<close>

definition try_block ::
  "'b builtins_scheme \<Rightarrow> 'w service \<Rightarrow> config \<Rightarrow> jsstring \<Rightarrow> 'w state
     \<Rightarrow> (error + unit) \<times> 'w state"
where
  "try_block B srv cfg formattedTimestamp s =
     (case validateInputs cfg of
        Inl e \<Rightarrow> (Inl e, s)
      | Inr valid \<Rightarrow>
     (case searchJiraIssues B srv (jql_of cfg) s of
        (Inl e, s1) \<Rightarrow> (Inl e, s1)
      | (Inr existingIssues, s1) \<Rightarrow>
     (let updatedDescription = updatedDescription_of cfg formattedTimestamp in
     (case getSprintId B srv cfg (sprint_name cfg) s1 of
        (Inl e, s2) \<Rightarrow> (Inl e, s2)
      | (Inr sprintId, s2) \<Rightarrow>
          if \<not> truthy sprintId then (Inl (SprintNotFound (sprint_name cfg)), s2)
          else
            (case get_prop existingIssues (js ''length'') of
               Inl e \<Rightarrow> (Inl e, s2)
             | Inr len \<Rightarrow>
                 (case js_gt_zero B len of
                    Inl e \<Rightarrow> (Inl e, s2)
                  | Inr some \<Rightarrow>
                      if some
                      then existing_issue_branch B srv cfg updatedDescription sprintId
                             existingIssues s2
                      else new_issue_branch B srv cfg updatedDescription sprintId s2))))))"

text \<open>
  The \<open>catch\<close> of line 214 reports the failure with \<open>core.setFailed\<close> and rethrows; the
  handler of line 243 reports it once more.
\<close>

definition createOrUpdateJiraStory ::
  "'b builtins_scheme \<Rightarrow> 'w service \<Rightarrow> config \<Rightarrow> jsstring \<Rightarrow> 'w state \<Rightarrow> 'w state"
where
  "createOrUpdateJiraStory B srv cfg formattedTimestamp s =
     (case try_block B srv cfg formattedTimestamp s of
        (Inl e, s') \<Rightarrow> s'\<lparr>failed := Some e\<rparr>
      | (Inr done, s') \<Rightarrow> s')"

text \<open>A run of the action: the module is loaded once and calls the orchestrator.\<close>

definition run ::
  "'b builtins_scheme \<Rightarrow> 'w service \<Rightarrow> config \<Rightarrow> jsstring \<Rightarrow> 'w \<Rightarrow> 'w state"
where
  "run B srv cfg formattedTimestamp w = createOrUpdateJiraStory B srv cfg formattedTimestamp (initial w)"

subsection \<open>Reading a trace\<close>

fun is_update :: "event \<Rightarrow> bool" where
  "is_update (Attempt m p d r dl) = (m = PUT)"
| "is_update (Wait dl) = False"

fun is_create :: "event \<Rightarrow> bool" where
  "is_create (Attempt m p d r dl) = (m = POST \<and> p = CreateIssuePath)"
| "is_create (Wait dl) = False"

fun is_assign :: "event \<Rightarrow> bool" where
  "is_assign (Attempt m p d r dl) =
     (m = POST \<and> (case p of SprintIssuePath sprintId \<Rightarrow> True | _ \<Rightarrow> False))"
| "is_assign (Wait dl) = False"

text \<open>An event that belongs to the request \<open>(m, p, d)\<close>: an attempt of it, or a wait.\<close>

fun event_of :: "http_method \<Rightarrow> route \<Rightarrow> jsval option \<Rightarrow> event \<Rightarrow> bool" where
  "event_of m p d (Attempt m' p' d' r dl) = (m' = m \<and> p' = p \<and> d' = d)"
| "event_of m p d (Wait dl) = True"


text \<open>
  What one request adds to a state: attempts of that request and waits, the first of
  them an attempt with the default arguments; the output and the failure stay as they
  are. A helper that throws before it calls \<open>sendHttpRequest\<close> adds nothing.
\<close>

definition sent_only ::
  "http_method \<Rightarrow> route \<Rightarrow> jsval option \<Rightarrow> 'w state \<Rightarrow> 'w state \<Rightarrow> bool"
where
  "sent_only m p d s s' \<longleftrightarrow>
     issue_key s' = issue_key s \<and> failed s' = failed s
     \<and> (\<exists>evs. trace s' = trace s @ Attempt m p d 3 1000 # evs \<and> list_all (event_of m p d) evs)"

definition sent_at_most ::
  "http_method \<Rightarrow> route \<Rightarrow> jsval option \<Rightarrow> 'w state \<Rightarrow> 'w state \<Rightarrow> bool"
where
  "sent_at_most m p d s s' \<longleftrightarrow>
     issue_key s' = issue_key s \<and> failed s' = failed s
     \<and> (\<exists>evs. trace s' = trace s @ evs \<and> list_all (event_of m p d) evs)"

section \<open>Sample runs\<close>

text \<open>
  A service that answers from a script, one outcome for each attempt in turn, whatever
  the request; once the script is used up the connection fails.
\<close>

fun scripted :: "outcome list service" where
  "scripted [] m p d = (NetworkError (js ''ECONNRESET''), [])"
| "scripted (out # rest) m p d = (out, rest)"

text \<open>A service that answers every attempt with the same outcome.\<close>

definition always :: "outcome \<Rightarrow> unit service" where
  "always out w m p d = (out, w)"

definition sample_cfg :: config where
  "sample_cfg =
     \<lparr>jira_base_url = js ''https://example.atlassian.net'',
      jira_user_email = js ''ci@example.com'',
      jira_api_token = js ''token'',
      jira_project_key = js ''PROJ'',
      issue_summary = js ''Fix login bug'',
      issue_description = js ''Fix login'',
      board_id = js ''42'',
      sprint_name = js ''Sprint 1'',
      retry_count = []\<rparr>"

text \<open>
  Response bodies of the sample runs. \<open>esc_n\<close> is the escape \<^verbatim>\<open>\n\<close> of JSON text, a
  backslash and the letter n.
\<close>

definition esc_n :: jsstring where
  "esc_n = [0x5C, 0x6E]"

definition body_no_issues :: jsstring where
  \<open>body_no_issues = js ''{"issues":[]}''\<close>

definition body_issue_english :: jsstring where
  \<open>body_issue_english =
     js ''{"issues":[{"key":"PROJ-5","fields":{"description":"Fix login'' @ esc_n @ esc_n
       @ js ''Last updated: 01.01.2024 10:00:00"}}]}''\<close>

definition body_issue_german :: jsstring where
  \<open>body_issue_german =
     js ''{"issues":[{"key":"PROJ-6","fields":{"description":"Fix login'' @ esc_n @ esc_n
       @ js ''Zuletzt aktualisiert: 01.01.2024, 10:00:00"}}]}''\<close>

definition body_sprints :: jsstring where
  \<open>body_sprints = js ''{"values":[{"id":7,"name":"Sprint 1"}]}''\<close>

definition body_other_sprints :: jsstring where
  \<open>body_other_sprints = js ''{"values":[{"id":8,"name":"sprint 1"}]}''\<close>

definition body_created :: jsstring where
  \<open>body_created = js ''{"key":"PROJ-6"}''\<close>

definition body_issue_odd_key :: jsstring where
  \<open>body_issue_odd_key =
     js ''{"issues":[{"key":{"toString":1},"fields":{"description":"Fix login"}}]}''\<close>

text \<open>The JSON text of the empty string: two quotation marks.\<close>

definition body_empty_string :: jsstring where
  "body_empty_string = [0x22, 0x22]"

text \<open>The values the sample bodies stand for.\<close>

definition issue_with :: "string \<Rightarrow> jsstring \<Rightarrow> jsval" where
  "issue_with key description =
     JObj [(js ''key'', JStr (js key)),
           (js ''fields'', JObj [(js ''description'', JStr description)])]"

definition english_issue :: jsval where
  "english_issue =
     issue_with ''PROJ-5'' (js ''Fix login\<newline>\<newline>Last updated: 01.01.2024 10:00:00'')"

definition german_issue :: jsval where
  "german_issue =
     issue_with ''PROJ-6'' (js ''Fix login\<newline>\<newline>Zuletzt aktualisiert: 01.01.2024, 10:00:00'')"

definition odd_key_issue :: jsval where
  "odd_key_issue =
     JObj [(js ''key'', JObj [(js ''toString'', JNum 1)]),
           (js ''fields'', JObj [(js ''description'', JStr (js ''Fix login''))])]"

definition search_response :: "jsval list \<Rightarrow> jsval" where
  "search_response issues = JObj [(js ''issues'', JArr issues)]"

definition sprints_response :: "real \<Rightarrow> string \<Rightarrow> jsval" where
  "sprints_response sprintId name =
     JObj [(js ''values'', JArr [JObj [(js ''id'', JNum sprintId), (js ''name'', JStr (js name))]])]"

text \<open>
  \<open>JSON.parse\<close> on the sample bodies; no other body is parsed in the sample runs, and
  no sample run compares a string, an array or an object with zero.
\<close>

definition sample_parse :: "jsstring \<Rightarrow> jsval option" where
  "sample_parse body =
     (if body = body_no_issues then Some (search_response [])
      else if body = body_issue_english then Some (search_response [english_issue])
      else if body = body_issue_german then Some (search_response [german_issue])
      else if body = body_issue_odd_key then Some (search_response [odd_key_issue])
      else if body = body_empty_string then Some (JStr [])
      else if body = body_sprints then Some (sprints_response 7 ''Sprint 1'')
      else if body = body_other_sprints then Some (sprints_response 8 ''sprint 1'')
      else if body = body_created then Some (JObj [(js ''key'', JStr (js ''PROJ-6''))])
      else None)"

definition sample_builtins :: builtins where
  "sample_builtins = \<lparr>json_parse = sample_parse, coerced_gt_zero = (\<lambda>v. False)\<rparr>"

text \<open>The scripts of the sample runs, and the requests they make a run send.\<close>

definition script_unchanged :: "outcome list" where
  "script_unchanged = [Response 200 body_issue_english, Response 200 body_sprints]"

definition script_absent_sprint :: "outcome list" where
  "script_absent_sprint = [Response 200 body_issue_english, Response 200 body_other_sprints]"

definition script_rerun :: "outcome list" where
  "script_rerun =
     [Response 200 body_issue_german, Response 200 body_sprints, Response 204 [], Response 204 []]"

definition script_odd_key :: "outcome list" where
  "script_odd_key = [Response 200 body_issue_odd_key, Response 200 body_sprints]"

definition script_unassigned :: "outcome list" where
  "script_unassigned =
     [Response 200 body_no_issues, Response 200 body_sprints, Response 201 body_created,
      Response 404 (js ''Not Found'')]"

definition search_attempt :: event where
  "search_attempt = Attempt GET (SearchPath (jql_of sample_cfg)) None 3 1000"

definition sprints_attempt :: event where
  "sprints_attempt = Attempt GET (BoardSprintsPath (js ''42'')) None 3 1000"

definition create_attempt :: "jsstring \<Rightarrow> event" where
  "create_attempt description =
     Attempt POST CreateIssuePath
       (Some (JObj [(js ''fields'',
                     JObj [(js ''project'', JObj [(js ''key'', JStr (js ''PROJ''))]),
                           (js ''summary'', JStr (js ''Fix login bug'')),
                           (js ''description'', JStr description),
                           (js ''issuetype'', JObj [(js ''name'', JStr (js ''Story''))]),
                           (js ''sprint'', JNum 7)])]))
       3 1000"

definition update_attempt :: "string \<Rightarrow> jsstring \<Rightarrow> event" where
  "update_attempt key description =
     Attempt PUT (IssuePath (JStr (js key)))
       (Some (JObj [(js ''fields'', JObj [(js ''description'', JStr description)])])) 3 1000"

definition assign_attempt :: "string \<Rightarrow> event" where
  "assign_attempt key =
     Attempt POST (SprintIssuePath (JNum 7)) (Some (JObj [(js ''issues'', JArr [JStr (js key)])]))
       3 1000"

section \<open>Properties of \<open>removeTimestamp\<close>\<close>

lemma strip_prefix_Some_iff: "strip_prefix p s = Some r \<longleftrightarrow> s = p @ r"
  by (induction p s rule: strip_prefix.induct) auto

lemma strip_prefix_append: "strip_prefix p (p @ r) = Some r"
  by (simp add: strip_prefix_Some_iff)

lemma strip_prefix_extend: "strip_prefix p s \<noteq> None \<Longrightarrow> strip_prefix p (s @ z) \<noteq> None"
  by (induction p s rule: strip_prefix.induct) (auto split: if_splits)

lemma timestamp_label_unfold: "timestamp_label = 0x0A # 0x0A # js ''Last updated: ''"
  by (simp add: timestamp_label_def js_def)

lemma label_tail_no_newline: "(0x0A :: code_unit) \<notin> set (js ''Last updated: '')"
  by (simp add: js_def)

lemma match_here_iff:
  "match_here s \<longleftrightarrow> (\<exists>rest. s = timestamp_label @ rest \<and> dot_plus_to_end rest)"
  by (auto simp: match_here_def strip_prefix_Some_iff strip_prefix_append split: option.splits)

lemma match_here_label: "match_here s \<Longrightarrow> strip_prefix timestamp_label s \<noteq> None"
  by (auto simp: match_here_def split: option.splits)

lemma newline_is_terminator: "is_line_terminator 0x0A"
  by (simp add: is_line_terminator_def)

lemma dot_plus_no_newline: "dot_plus_to_end rest \<Longrightarrow> (0x0A :: code_unit) \<notin> set rest"
  using newline_is_terminator by (auto simp: dot_plus_to_end_def list_all_iff)

text \<open>
  The second of two adjacent newlines that follow a text \<open>D\<close> stands at a position
  after the first one of the whole.
\<close>

lemma second_newline_in_tail: "(0x0A :: code_unit) \<in> set (drop 1 (D @ 0x0A # 0x0A # X))"
  by (cases D) auto

text \<open>
  No match starts before two adjacent newlines that are followed by anything but the
  rest of a match: the newlines would have to lie in the matched label's tail or in the
  run matched by \<open>.+\<close>, and neither holds a newline.
\<close>

lemma no_match_before_newlines: "\<not> match_here (c # D @ 0x0A # 0x0A # X)"
proof
  assume "match_here (c # D @ 0x0A # 0x0A # X)"
  then obtain rest where eq: "c # D @ 0x0A # 0x0A # X = timestamp_label @ rest"
    and rest: "dot_plus_to_end rest"
    by (auto simp: match_here_iff)
  from eq have "drop 2 (c # D @ 0x0A # 0x0A # X) = drop 2 (timestamp_label @ rest)"
    by simp
  then have "drop 1 (D @ 0x0A # 0x0A # X) = js ''Last updated: '' @ rest"
    by (simp add: timestamp_label_unfold)
  then have "(0x0A :: code_unit) \<in> set (js ''Last updated: '' @ rest)"
    using second_newline_in_tail [of D X] by simp
  then show False
    using label_tail_no_newline dot_plus_no_newline [OF rest] by simp
qed

lemma no_match_before_label: "\<not> match_here (c # D @ timestamp_label @ t)"
  using no_match_before_newlines [of c D "js ''Last updated: '' @ t"]
  by (simp add: timestamp_label_unfold)

lemma removeTimestamp_match: "match_here s \<Longrightarrow> removeTimestamp s = []"
  by (cases s) auto

lemma match_at_label: "dot_plus_to_end t \<Longrightarrow> match_here (timestamp_label @ t)"
  by (auto simp: match_here_iff)

lemma removeTimestamp_attach:
  "dot_plus_to_end t \<Longrightarrow> removeTimestamp (D @ timestamp_label @ t) = D"
proof (induction D)
  case Nil
  then show ?case by (simp add: removeTimestamp_match match_at_label)
next
  case (Cons c D)
  then show ?case by (simp add: no_match_before_label)
qed

lemma removeTimestamp_prefix: "\<exists>z. s = removeTimestamp s @ z"
  by (induction s) auto

text \<open>
  \<open>removeTimestamp\<close> leaves a text as it is exactly when the text ends in no trailer,
  and otherwise cuts exactly one trailer off its end.
\<close>

lemma match_here_not_empty: "\<not> match_here []"
  by (simp add: match_here_def timestamp_label_unfold)

lemma match_here_has_trailer: "match_here s \<Longrightarrow> has_trailer s"
  by (cases s) (simp_all add: match_here_not_empty)

lemma has_trailer_append: "has_trailer s \<Longrightarrow> has_trailer (A @ s)"
  by (induction A) auto

lemma has_trailer_iff:
  "has_trailer s \<longleftrightarrow> (\<exists>A t. s = A @ timestamp_label @ t \<and> dot_plus_to_end t)"
proof
  show "has_trailer s \<Longrightarrow> \<exists>A t. s = A @ timestamp_label @ t \<and> dot_plus_to_end t"
  proof (induction s)
    case Nil
    then show ?case by simp
  next
    case (Cons c cs)
    show ?case
    proof (cases "match_here (c # cs)")
      case True
      then obtain t where "c # cs = [] @ timestamp_label @ t" and "dot_plus_to_end t"
        by (auto simp: match_here_iff)
      then show ?thesis by blast
    next
      case False
      then obtain A t where "cs = A @ timestamp_label @ t" and "dot_plus_to_end t"
        using Cons by auto
      then have "c # cs = (c # A) @ timestamp_label @ t"
        by simp
      then show ?thesis
        using \<open>dot_plus_to_end t\<close> by blast
    qed
  qed
next
  assume "\<exists>A t. s = A @ timestamp_label @ t \<and> dot_plus_to_end t"
  then show "has_trailer s"
    using match_at_label match_here_has_trailer has_trailer_append by blast
qed

lemma removeTimestamp_fixed_iff: "removeTimestamp s = s \<longleftrightarrow> \<not> has_trailer s"
  by (induction s) auto

lemma removeTimestamp_cuts_one:
  "removeTimestamp s = s
     \<or> (\<exists>t. s = removeTimestamp s @ timestamp_label @ t \<and> dot_plus_to_end t)"
proof (induction s)
  case Nil
  then show ?case by simp
next
  case (Cons c cs)
  show ?case
  proof (cases "match_here (c # cs)")
    case True
    then show ?thesis
      by (auto simp: match_here_iff)
  next
    case False
    then show ?thesis
      using Cons by auto
  qed
qed

text \<open>
  The trailer the workflow writes is not the one \<open>removeTimestamp\<close> removes: a text
  that ends in \<open>"\n\nZuletzt aktualisiert: " + t\<close> keeps that trailer, whatever \<open>t\<close> is,
  so it never strips to what the text before the trailer strips to.
\<close>

lemma german_label_unfold:
  "js ''\<newline>\<newline>Zuletzt aktualisiert: '' = 0x0A # 0x0A # js ''Zuletzt aktualisiert: ''"
  by (simp add: js_def)

lemma german_trailer_kept:
  "length D < length (removeTimestamp (D @ js ''\<newline>\<newline>Zuletzt aktualisiert: '' @ t))"
proof (induction D)
  case Nil
  show ?case
    by (simp add: js_def match_here_def timestamp_label_def)
next
  case (Cons c D)
  have "\<not> match_here (c # D @ 0x0A # 0x0A # js ''Zuletzt aktualisiert: '' @ t)"
    by (rule no_match_before_newlines)
  then show ?case
    using Cons by (simp add: german_label_unfold)
qed

lemma removeTimestamp_length: "length (removeTimestamp s) \<le> length s"
  using removeTimestamp_prefix [of s] by (metis length_append le_add1)

lemma written_description_differs:
  "removeTimestamp (updatedDescription_of cfg formattedTimestamp)
     \<noteq> removeTimestamp (issue_description cfg)"
proof
  assume "removeTimestamp (updatedDescription_of cfg formattedTimestamp)
            = removeTimestamp (issue_description cfg)"
  then have "length (removeTimestamp (updatedDescription_of cfg formattedTimestamp))
               \<le> length (issue_description cfg)"
    by (simp add: removeTimestamp_length)
  then show False
    using german_trailer_kept [of "issue_description cfg" formattedTimestamp]
    by (simp add: updatedDescription_of_def)
qed

text \<open>
  C3, as stated, fails for the empty timestamp: \<open>.+\<close> needs at least one code unit, so
  the label alone at the end of a text is not removed.
\<close>

theorem removeTimestamp_keeps_bare_label:
  "removeTimestamp (js ''Fix login'' @ js ''\<newline>\<newline>Last updated: '' @ []) \<noteq> js ''Fix login''"
  by (simp add: js_def match_here_def timestamp_label_def dot_plus_to_end_def)

text \<open>
  C3 (amended): for every description \<open>D\<close> and every timestamp text \<open>t\<close> that is not
  empty and holds no line terminator, stripping \<open>D + "\n\nLast updated: " + t\<close> returns
  exactly \<open>D\<close>.
\<close>

theorem removeTimestamp_roundtrip:
  assumes "t \<noteq> []" and "\<forall>c\<in>set t. \<not> is_line_terminator c"
  shows "removeTimestamp (D @ js ''\<newline>\<newline>Last updated: '' @ t) = D"
  using assms removeTimestamp_attach [of t D]
  by (simp add: dot_plus_to_end_def list_all_iff timestamp_label_def)

theorem removeTimestamp_roundtrip_witness:
  "removeTimestamp (js ''Fix login'' @ js ''\<newline>\<newline>Last updated: '' @ js ''01.01.2024 10:00:00'')
     = js ''Fix login''"
proof -
  have "js ''01.01.2024 10:00:00'' \<noteq> []"
    by (simp add: js_def)
  moreover have "\<forall>c\<in>set (js ''01.01.2024 10:00:00''). \<not> is_line_terminator c"
    by (simp add: js_def is_line_terminator_def)
  ultimately show ?thesis
    by (rule removeTimestamp_roundtrip)
qed

text \<open>
  C4, as stated, fails on a text that carries two trailers: each application removes
  one of them.
\<close>

theorem removeTimestamp_twice_differs:
  "removeTimestamp (removeTimestamp (js ''a\<newline>\<newline>Last updated: b\<newline>\<newline>Last updated: c''))
     \<noteq> removeTimestamp (js ''a\<newline>\<newline>Last updated: b\<newline>\<newline>Last updated: c'')"
  by (simp add: js_def match_here_def timestamp_label_def dot_plus_to_end_def
      is_line_terminator_def)

text \<open>
  C4 (amended): for every string \<open>D\<close>,
  \<open>removeTimestamp(removeTimestamp(D)) == removeTimestamp(D)\<close> holds exactly when
  \<open>removeTimestamp(D)\<close> does not itself end in a timestamp trailer, and that is exactly
  when \<open>D\<close> does not end in two stacked trailers, \<open>D = A + "\n\nLast updated: " + t1 +
  "\n\nLast updated: " + t2\<close> with \<open>t1\<close> and \<open>t2\<close> not empty and free of line
  terminators.
\<close>

theorem removeTimestamp_idempotent_iff:
  "(removeTimestamp (removeTimestamp D) = removeTimestamp D
      \<longleftrightarrow> \<not> has_trailer (removeTimestamp D))
   \<and> (has_trailer (removeTimestamp D)
      \<longleftrightarrow> (\<exists>A t1 t2. D = A @ js ''\<newline>\<newline>Last updated: '' @ t1
                                 @ js ''\<newline>\<newline>Last updated: '' @ t2
                        \<and> dot_plus_to_end t1 \<and> dot_plus_to_end t2))"
proof
  show "removeTimestamp (removeTimestamp D) = removeTimestamp D
          \<longleftrightarrow> \<not> has_trailer (removeTimestamp D)"
    by (rule removeTimestamp_fixed_iff)
next
  show "has_trailer (removeTimestamp D)
          \<longleftrightarrow> (\<exists>A t1 t2. D = A @ js ''\<newline>\<newline>Last updated: '' @ t1
                                 @ js ''\<newline>\<newline>Last updated: '' @ t2
                        \<and> dot_plus_to_end t1 \<and> dot_plus_to_end t2)"
  proof
    assume left: "has_trailer (removeTimestamp D)"
    then obtain A t1 where first: "removeTimestamp D = A @ timestamp_label @ t1"
      and t1: "dot_plus_to_end t1"
      by (auto simp: has_trailer_iff)
    have "removeTimestamp D \<noteq> D"
    proof
      assume same: "removeTimestamp D = D"
      then have "\<not> has_trailer D"
        by (simp add: removeTimestamp_fixed_iff)
      then show False
        using left same by simp
    qed
    then obtain t2 where "D = removeTimestamp D @ timestamp_label @ t2"
      and t2: "dot_plus_to_end t2"
      using removeTimestamp_cuts_one [of D] by auto
    then have "D = A @ timestamp_label @ t1 @ timestamp_label @ t2"
      using first by simp
    then show "\<exists>A t1 t2. D = A @ js ''\<newline>\<newline>Last updated: '' @ t1
                                 @ js ''\<newline>\<newline>Last updated: '' @ t2
                        \<and> dot_plus_to_end t1 \<and> dot_plus_to_end t2"
      using t1 t2 unfolding timestamp_label_def by blast
  next
    assume "\<exists>A t1 t2. D = A @ js ''\<newline>\<newline>Last updated: '' @ t1
                                 @ js ''\<newline>\<newline>Last updated: '' @ t2
                        \<and> dot_plus_to_end t1 \<and> dot_plus_to_end t2"
    then obtain A t1 t2 where D: "D = (A @ timestamp_label @ t1) @ timestamp_label @ t2"
      and t1: "dot_plus_to_end t1" and t2: "dot_plus_to_end t2"
      unfolding timestamp_label_def by auto
    have "removeTimestamp D = A @ timestamp_label @ t1"
      unfolding D using t2 by (rule removeTimestamp_attach)
    then show "has_trailer (removeTimestamp D)"
      using t1 by (auto simp: has_trailer_iff)
  qed
qed

text \<open>
  A text with two trailers that are not stacked: the first one is followed by a line of
  its own, so one application removes the only trailer at the end.
\<close>

theorem removeTimestamp_idempotent_iff_witness:
  "\<not> has_trailer
       (removeTimestamp (js ''a\<newline>\<newline>Last updated: b\<newline>c\<newline>\<newline>Last updated: d''))
   \<and> removeTimestamp
        (removeTimestamp (js ''a\<newline>\<newline>Last updated: b\<newline>c\<newline>\<newline>Last updated: d''))
       = removeTimestamp (js ''a\<newline>\<newline>Last updated: b\<newline>c\<newline>\<newline>Last updated: d'')"
proof -
  have h: "\<not> has_trailer
       (removeTimestamp (js ''a\<newline>\<newline>Last updated: b\<newline>c\<newline>\<newline>Last updated: d''))"
    by (simp add: js_def match_here_def timestamp_label_def dot_plus_to_end_def
        is_line_terminator_def)
  show ?thesis
    using h removeTimestamp_idempotent_iff
      [of "js ''a\<newline>\<newline>Last updated: b\<newline>c\<newline>\<newline>Last updated: d''", THEN conjunct1]
    by blast
qed

section \<open>The sample runs, evaluated\<close>

text \<open>
  What the sample bodies resolve to, and the definitions a sample run unfolds. The
  witnesses below evaluate the model on the sample runs with these.
\<close>

lemma resolve_no_issues:
  "resolve_body sample_builtins body_no_issues = search_response []"
  by code_simp

lemma resolve_issue_english:
  "resolve_body sample_builtins body_issue_english = search_response [english_issue]"
  by code_simp

lemma resolve_issue_german:
  "resolve_body sample_builtins body_issue_german = search_response [german_issue]"
  by code_simp

lemma resolve_sprints:
  "resolve_body sample_builtins body_sprints = sprints_response 7 ''Sprint 1''"
  by code_simp

lemma resolve_other_sprints:
  "resolve_body sample_builtins body_other_sprints = sprints_response 8 ''sprint 1''"
  by code_simp

lemma resolve_created:
  "resolve_body sample_builtins body_created = JObj [(js ''key'', JStr (js ''PROJ-6''))]"
  by code_simp

lemma resolve_issue_odd_key:
  "resolve_body sample_builtins body_issue_odd_key = search_response [odd_key_issue]"
  by code_simp

lemma resolve_empty_string:
  "resolve_body sample_builtins body_empty_string = JStr []"
  by code_simp

lemma resolve_empty: "resolve_body B [] = JStr []"
  by (simp add: resolve_body_def trim_def)

text \<open>The sample inputs, field by field; the search expression built from them encodes.\<close>

lemma sample_cfg_fields:
  "jira_base_url sample_cfg = js ''https://example.atlassian.net''"
  "jira_user_email sample_cfg = js ''ci@example.com''"
  "jira_api_token sample_cfg = js ''token''"
  "jira_project_key sample_cfg = js ''PROJ''"
  "issue_summary sample_cfg = js ''Fix login bug''"
  "issue_description sample_cfg = js ''Fix login''"
  "board_id sample_cfg = js ''42''"
  "sprint_name sample_cfg = js ''Sprint 1''"
  "retry_count sample_cfg = []"
  by (simp_all add: sample_cfg_def)

lemma sample_jql_well_formed: "well_formed_utf16 (jql_of sample_cfg)"
  by code_simp

lemma jql_of_retry_count: "jql_of (cfg\<lparr>retry_count := r\<rparr>) = jql_of cfg"
  by (simp add: jql_of_def)

lemmas sample_resolved =
  resolve_no_issues resolve_issue_english resolve_issue_german resolve_sprints
  resolve_other_sprints resolve_created resolve_issue_odd_key resolve_empty_string
  resolve_empty sample_jql_well_formed

lemmas run_defs =
  run_def createOrUpdateJiraStory_def try_block_def existing_issue_branch_def
  new_issue_branch_def searchJiraIssues_def getSprintId_def updateJiraIssue_def
  createNewJiraIssue_def addIssueToSprint_def sendHttpRequest.simps initial_def
  validateInputs_def requiredInputs_def sample_cfg_fields updatedDescription_of_def
  js_or_def issue_with_def search_response_def sprints_response_def english_issue_def
  german_issue_def odd_key_issue_def
  match_here_def timestamp_label_def dot_plus_to_end_def is_line_terminator_def
  search_attempt_def sprints_attempt_def
  create_attempt_def update_attempt_def assign_attempt_def js_def
  script_unchanged_def script_absent_sprint_def script_rerun_def script_unassigned_def
  script_odd_key_def

lemma sample_valid: "validateInputs sample_cfg = Inr ()"
  by (simp add: run_defs)

section \<open>Properties of the transport\<close>

text \<open>One equation for each way an attempt can end.\<close>

lemma send_2xx:
  assumes "srv (world s) m p d = (Response status body, w1)" and "200 \<le> status" and "status < 300"
  shows "sendHttpRequest B srv m p d retries delay s
           = (Inr (resolve_body B body),
              s\<lparr>world := w1, trace := trace s @ [Attempt m p d retries delay]\<rparr>)"
  using assms by (subst sendHttpRequest.simps) simp

lemma send_429_retry:
  assumes "srv (world s) m p d = (Response 429 body, w1)" and "0 < retries"
  shows "sendHttpRequest B srv m p d retries delay s
           = sendHttpRequest B srv m p d (retries - 1) (delay * 2)
               (s\<lparr>world := w1, trace := trace s @ [Attempt m p d retries delay, Wait delay]\<rparr>)"
  using assms by (subst sendHttpRequest.simps) simp

lemma send_status_fail:
  assumes "srv (world s) m p d = (Response status body, w1)"
    and "\<not> (200 \<le> status \<and> status < 300)" and "\<not> (status = 429 \<and> 0 < retries)"
  shows "sendHttpRequest B srv m p d retries delay s
           = (Inl (HttpError status body),
              s\<lparr>world := w1, trace := trace s @ [Attempt m p d retries delay]\<rparr>)"
  using assms by (subst sendHttpRequest.simps) auto

lemma send_error_retry:
  assumes "srv (world s) m p d = (NetworkError e, w1)" and "0 < retries"
  shows "sendHttpRequest B srv m p d retries delay s
           = sendHttpRequest B srv m p d (retries - 1) (delay * 2)
               (s\<lparr>world := w1, trace := trace s @ [Attempt m p d retries delay, Wait delay]\<rparr>)"
  using assms by (subst sendHttpRequest.simps) simp

lemma send_error_fail:
  assumes "srv (world s) m p d = (NetworkError e, w1)" and "retries = 0"
  shows "sendHttpRequest B srv m p d retries delay s
           = (Inl (RequestError e),
              s\<lparr>world := w1, trace := trace s @ [Attempt m p d retries delay]\<rparr>)"
  using assms by (subst sendHttpRequest.simps) simp

lemma send_thrown:
  assumes "srv (world s) m p d = (Thrown e, w1)"
  shows "sendHttpRequest B srv m p d retries delay s
           = (Inl (ThrownError e),
              s\<lparr>world := w1, trace := trace s @ [Attempt m p d retries delay]\<rparr>)"
  using assms by (subst sendHttpRequest.simps) simp

lemma send_step:
  obtains (final) res w1 where
      "sendHttpRequest B srv m p d retries delay s
         = (res, s\<lparr>world := w1, trace := trace s @ [Attempt m p d retries delay]\<rparr>)"
  | (again) w1 where "0 < retries" and
      "sendHttpRequest B srv m p d retries delay s
         = sendHttpRequest B srv m p d (retries - 1) (delay * 2)
             (s\<lparr>world := w1, trace := trace s @ [Attempt m p d retries delay, Wait delay]\<rparr>)"
proof -
  obtain out w1 where step: "srv (world s) m p d = (out, w1)"
    by (cases "srv (world s) m p d")
  show thesis
  proof (cases out)
    case (Response status body)
    consider (ok) "200 \<le> status \<and> status < 300"
      | (retry) "status = 429 \<and> 0 < retries"
      | (fail) "\<not> (200 \<le> status \<and> status < 300)" "\<not> (status = 429 \<and> 0 < retries)"
      by blast
    then show ?thesis
    proof cases
      case ok
      then show ?thesis
        using step Response send_2xx [of srv s m p d status body w1 B retries delay] final
        by simp
    next
      case retry
      then show ?thesis
        using step Response send_429_retry [of srv s m p d body w1 retries B delay] again
        by simp
    next
      case fail
      then show ?thesis
        using step Response send_status_fail [of srv s m p d status body w1 retries B delay] final
        by simp
    qed
  next
    case (NetworkError e)
    show ?thesis
    proof (cases "0 < retries")
      case True
      then show ?thesis
        using step NetworkError send_error_retry [of srv s m p d e w1 retries B delay] again
        by simp
    next
      case False
      then show ?thesis
        using step NetworkError send_error_fail [of srv s m p d e w1 retries B delay] final
        by simp
    qed
  next
    case (Thrown e)
    then show ?thesis
      using step send_thrown [of srv s m p d e w1 B retries delay] final by simp
  qed
qed

lemma send_frame:
  "sendHttpRequest B srv m p d retries delay s = (res, s') \<Longrightarrow>
     issue_key s' = issue_key s \<and> failed s' = failed s
     \<and> (\<exists>evs. trace s' = trace s @ Attempt m p d retries delay # evs
              \<and> list_all (event_of m p d) evs)"
proof (induction retries arbitrary: delay s)
  case 0
  show ?case
  proof (cases rule: send_step [of B srv m p d 0 delay s])
    case (final res' w1)
    then show ?thesis using 0 by auto
  next
    case (again w1)
    then show ?thesis by simp
  qed
next
  case (Suc n)
  show ?case
  proof (cases rule: send_step [of B srv m p d "Suc n" delay s])
    case (final res' w1)
    then show ?thesis using Suc.prems by auto
  next
    case (again w1)
    then have "sendHttpRequest B srv m p d n (delay * 2)
        (s\<lparr>world := w1, trace := trace s @ [Attempt m p d (Suc n) delay, Wait delay]\<rparr>) = (res, s')"
      using Suc.prems by simp
    from Suc.IH [OF this] show ?thesis by auto
  qed
qed

text \<open>A body trims to nothing exactly when it holds white space only.\<close>

lemma dropWhile_all_iff: "(\<forall>c\<in>set (dropWhile P s). P c) \<longleftrightarrow> (\<forall>c\<in>set s. P c)"
  by (induction s) auto

lemma trim_empty_iff: "trim s = [] \<longleftrightarrow> list_all is_white_space s"
  by (simp add: trim_def dropWhile_all_iff list_all_iff)

text \<open>
  C7: a request that receives status 429 while its budget is positive waits the current
  delay and is sent again with the budget decremented and the delay doubled. A 429
  followed by a 2xx on the retry succeeds after exactly two attempts, the second with
  twice the delay of the first, which is more whenever the delay is positive. From the
  default arguments, three 429 in a row give the waits 1000, 2000 and 4000 milliseconds
  and a fourth attempt with no budget left.
\<close>

theorem rate_limit_backoff:
  assumes limited: "srv (world s) m p d = (Response 429 body, w1)" and budget: "0 < retries"
  shows "sendHttpRequest B srv m p d retries delay s
           = sendHttpRequest B srv m p d (retries - 1) (delay * 2)
               (s\<lparr>world := w1, trace := trace s @ [Attempt m p d retries delay, Wait delay]\<rparr>)
       \<and> (\<forall>status body2 w2.
            srv w1 m p d = (Response status body2, w2) \<and> 200 \<le> status \<and> status < 300 \<longrightarrow>
              sendHttpRequest B srv m p d retries delay s
                = (Inr (resolve_body B body2),
                   s\<lparr>world := w2,
                     trace := trace s @ [Attempt m p d retries delay, Wait delay,
                                         Attempt m p d (retries - 1) (delay * 2)]\<rparr>)
              \<and> (0 < delay \<longrightarrow> delay < delay * 2))
       \<and> (\<forall>body2 w2 body3 w3.
            retries = 3 \<and> delay = 1000 \<and> srv w1 m p d = (Response 429 body2, w2)
              \<and> srv w2 m p d = (Response 429 body3, w3) \<longrightarrow>
              sendHttpRequest B srv m p d retries delay s
                = sendHttpRequest B srv m p d 0 8000
                    (s\<lparr>world := w3,
                      trace := trace s @ [Attempt m p d 3 1000, Wait 1000,
                                          Attempt m p d 2 2000, Wait 2000,
                                          Attempt m p d 1 4000, Wait 4000]\<rparr>))"
proof (intro conjI allI impI)
  show first: "sendHttpRequest B srv m p d retries delay s
           = sendHttpRequest B srv m p d (retries - 1) (delay * 2)
               (s\<lparr>world := w1, trace := trace s @ [Attempt m p d retries delay, Wait delay]\<rparr>)"
    using limited budget by (rule send_429_retry)
  {
    fix status body2 w2
    assume "srv w1 m p d = (Response status body2, w2) \<and> 200 \<le> status \<and> status < 300"
    then show "sendHttpRequest B srv m p d retries delay s
                = (Inr (resolve_body B body2),
                   s\<lparr>world := w2,
                     trace := trace s @ [Attempt m p d retries delay, Wait delay,
                                         Attempt m p d (retries - 1) (delay * 2)]\<rparr>)"
      by (simp add: first send_2xx [where ?w1.0 = w2 and status = status and body = body2])
    assume "0 < delay"
    then show "delay < delay * 2"
      by simp
  }
  {
    fix body2 w2 body3 w3
    assume a: "retries = 3 \<and> delay = 1000 \<and> srv w1 m p d = (Response 429 body2, w2)
              \<and> srv w2 m p d = (Response 429 body3, w3)"
    let ?s1 = "s\<lparr>world := w1, trace := trace s @ [Attempt m p d 3 1000, Wait 1000]\<rparr>"
    let ?s2 = "s\<lparr>world := w2, trace := trace s @ [Attempt m p d 3 1000, Wait 1000,
                                          Attempt m p d 2 2000, Wait 2000]\<rparr>"
    have "sendHttpRequest B srv m p d 3 1000 s = sendHttpRequest B srv m p d 2 2000 ?s1"
      using first a by simp
    also have "\<dots> = sendHttpRequest B srv m p d 1 4000 ?s2"
      using a send_429_retry [of srv ?s1 m p d body2 w2 2 B 2000] by simp
    also have "\<dots> = sendHttpRequest B srv m p d 0 8000
                    (s\<lparr>world := w3,
                      trace := trace s @ [Attempt m p d 3 1000, Wait 1000,
                                          Attempt m p d 2 2000, Wait 2000,
                                          Attempt m p d 1 4000, Wait 4000]\<rparr>)"
      using a send_429_retry [of srv ?s2 m p d body3 w3 1 B 4000] by simp
    finally show "sendHttpRequest B srv m p d retries delay s
                = sendHttpRequest B srv m p d 0 8000
                    (s\<lparr>world := w3,
                      trace := trace s @ [Attempt m p d 3 1000, Wait 1000,
                                          Attempt m p d 2 2000, Wait 2000,
                                          Attempt m p d 1 4000, Wait 4000]\<rparr>)"
      using a by simp
  }
qed

text \<open>
  On the sample service: a 429 and then a 201 give the parsed body after two attempts,
  with a wait of 1000 ms between them; four 429 in a row use up the budget of three
  retries with waits of 1000, 2000 and 4000 ms.
\<close>

theorem rate_limit_backoff_witness:
  "sendHttpRequest sample_builtins scripted POST CreateIssuePath None 3 1000
     (initial [Response 429 [], Response 201 body_created])
   = (Inr (JObj [(js ''key'', JStr (js ''PROJ-6''))]),
      \<lparr>world = [],
       trace = [Attempt POST CreateIssuePath None 3 1000, Wait 1000,
                Attempt POST CreateIssuePath None 2 2000],
       issue_key = None, failed = None\<rparr>)
   \<and> sendHttpRequest sample_builtins scripted POST CreateIssuePath None 3 1000
       (initial [Response 429 [], Response 429 [], Response 429 [], Response 429 []])
     = (Inl (HttpError 429 []),
        \<lparr>world = [],
         trace = [Attempt POST CreateIssuePath None 3 1000, Wait 1000,
                  Attempt POST CreateIssuePath None 2 2000, Wait 2000,
                  Attempt POST CreateIssuePath None 1 4000, Wait 4000,
                  Attempt POST CreateIssuePath None 0 8000],
         issue_key = None, failed = None\<rparr>)"
proof
  let ?s = "initial [Response 429 [], Response 201 body_created]"
  have limited: "scripted (world ?s) POST CreateIssuePath None
                 = (Response 429 [], [Response 201 body_created])"
    by (simp add: initial_def)
  have budget: "0 < (3::nat)"
    by simp
  have answered: "scripted [Response 201 body_created] POST CreateIssuePath None
                    = (Response 201 body_created, []) \<and> 200 \<le> (201::nat) \<and> (201::nat) < 300"
    by simp
  show "sendHttpRequest sample_builtins scripted POST CreateIssuePath None 3 1000 ?s
   = (Inr (JObj [(js ''key'', JStr (js ''PROJ-6''))]),
      \<lparr>world = [],
       trace = [Attempt POST CreateIssuePath None 3 1000, Wait 1000,
                Attempt POST CreateIssuePath None 2 2000],
       issue_key = None, failed = None\<rparr>)"
    using rate_limit_backoff [where srv = scripted and s = ?s
        and B = sample_builtins and delay = 1000,
        OF limited budget, THEN conjunct2, THEN conjunct1, rule_format, OF answered]
    by (simp add: resolve_created initial_def)
next
  let ?s = "initial [Response 429 [], Response 429 [], Response 429 [], Response 429 []]"
  have limited: "scripted (world ?s) POST CreateIssuePath None
                 = (Response 429 [], [Response 429 [], Response 429 [], Response 429 []])"
    by (simp add: initial_def)
  have budget: "0 < (3::nat)"
    by simp
  have more: "(3::nat) = 3 \<and> (1000::nat) = 1000
      \<and> scripted [Response 429 [], Response 429 [], Response 429 []] POST CreateIssuePath None
          = (Response 429 [], [Response 429 [], Response 429 []])
      \<and> scripted [Response 429 [], Response 429 []] POST CreateIssuePath None
          = (Response 429 [], [Response 429 []])"
    by simp
  have step: "sendHttpRequest sample_builtins scripted POST CreateIssuePath None 3 1000 ?s
     = sendHttpRequest sample_builtins scripted POST CreateIssuePath None 0 8000
         (?s\<lparr>world := [Response 429 []],
             trace := trace ?s
                      @ [Attempt POST CreateIssuePath None 3 1000, Wait 1000,
                         Attempt POST CreateIssuePath None 2 2000, Wait 2000,
                         Attempt POST CreateIssuePath None 1 4000, Wait 4000]\<rparr>)"
    using rate_limit_backoff [where srv = scripted and s = ?s
        and B = sample_builtins and delay = 1000,
        OF limited budget, THEN conjunct2, THEN conjunct2, rule_format, OF more] .
  show "sendHttpRequest sample_builtins scripted POST CreateIssuePath None 3 1000 ?s
     = (Inl (HttpError 429 []),
        \<lparr>world = [],
         trace = [Attempt POST CreateIssuePath None 3 1000, Wait 1000,
                  Attempt POST CreateIssuePath None 2 2000, Wait 2000,
                  Attempt POST CreateIssuePath None 1 4000, Wait 4000,
                  Attempt POST CreateIssuePath None 0 8000],
         issue_key = None, failed = None\<rparr>)"
    unfolding step by (simp add: sendHttpRequest.simps initial_def)
qed

text \<open>
  C8 (amended): a response with a status from 200 to 299 never rejects. A body of white
  space only resolves to the empty string, a body that parses as JSON to the parsed value,
  and any other body to the raw text. The empty string is not a result of its own: a body
  that is the JSON text of the empty string resolves to it as well.
\<close>

theorem success_status_resolves:
  assumes "srv (world s) m p d = (Response status body, w1)"
    and "200 \<le> status" and "status \<le> 299"
  shows "\<exists>v. fst (sendHttpRequest B srv m p d retries delay s) = Inr v
           \<and> (list_all is_white_space body \<longrightarrow> v = JStr [])
           \<and> (\<not> list_all is_white_space body \<longrightarrow>
                (case json_parse B body of Some parsedData \<Rightarrow> v = parsedData
                                         | None \<Rightarrow> v = JStr body))"
proof -
  have "sendHttpRequest B srv m p d retries delay s
          = (Inr (resolve_body B body),
             s\<lparr>world := w1, trace := trace s @ [Attempt m p d retries delay]\<rparr>)"
    using assms by (intro send_2xx) auto
  then show ?thesis
    by (auto simp: resolve_body_def trim_empty_iff split: option.splits)
qed

text \<open>
  On the sample service: a 204 without body, a 201 with a JSON body, and a 200 whose
  body is no JSON.
\<close>

theorem success_status_resolves_witness:
  "fst (sendHttpRequest sample_builtins scripted PUT (IssuePath (JStr (js ''PROJ-5''))) None 3 1000
          (initial [Response 204 []])) = Inr (JStr [])
   \<and> fst (sendHttpRequest sample_builtins scripted POST CreateIssuePath None 3 1000
            (initial [Response 201 body_created])) = Inr (JObj [(js ''key'', JStr (js ''PROJ-6''))])
   \<and> fst (sendHttpRequest sample_builtins scripted GET (SearchPath []) None 3 1000
            (initial [Response 200 (js ''OK'')])) = Inr (JStr (js ''OK''))"
proof (intro conjI)
  have "scripted (world (initial [Response 204 []])) PUT (IssuePath (JStr (js ''PROJ-5''))) None
          = (Response 204 [], [])"
    by (simp add: initial_def)
  from success_status_resolves [where srv = scripted and s = "initial [Response 204 []]"
      and B = sample_builtins and retries = 3 and delay = 1000, OF this]
  show "fst (sendHttpRequest sample_builtins scripted PUT (IssuePath (JStr (js ''PROJ-5''))) None
               3 1000 (initial [Response 204 []])) = Inr (JStr [])"
    by auto
next
  have blank: "\<not> list_all is_white_space body_created"
    by (simp add: body_created_def js_def is_white_space_def is_line_terminator_def)
  have parsed: "json_parse sample_builtins body_created
                  = Some (JObj [(js ''key'', JStr (js ''PROJ-6''))])"
    by code_simp
  have "scripted (world (initial [Response 201 body_created])) POST CreateIssuePath None
          = (Response 201 body_created, [])"
    by (simp add: initial_def)
  from success_status_resolves [where srv = scripted
      and s = "initial [Response 201 body_created]"
      and B = sample_builtins and retries = 3 and delay = 1000, OF this]
  show "fst (sendHttpRequest sample_builtins scripted POST CreateIssuePath None 3 1000
               (initial [Response 201 body_created]))
          = Inr (JObj [(js ''key'', JStr (js ''PROJ-6''))])"
    using blank parsed by auto
next
  have blank: "\<not> list_all is_white_space (js ''OK'')"
    by (simp add: js_def is_white_space_def is_line_terminator_def)
  have unparsed: "json_parse sample_builtins (js ''OK'') = None"
    by code_simp
  have "scripted (world (initial [Response 200 (js ''OK'')])) GET (SearchPath []) None
          = (Response 200 (js ''OK''), [])"
    by (simp add: initial_def)
  from success_status_resolves [where srv = scripted
      and s = "initial [Response 200 (js ''OK'')]"
      and B = sample_builtins and retries = 3 and delay = 1000, OF this]
  show "fst (sendHttpRequest sample_builtins scripted GET (SearchPath []) None 3 1000
               (initial [Response 200 (js ''OK'')])) = Inr (JStr (js ''OK''))"
    using blank unparsed by auto
qed

text \<open>
  C8, as stated, speaks of a distinguished empty result. The result for an empty body is
  the empty string, and a success response whose body is the two characters \<open>""\<close>, which
  is not empty, resolves to the same value.
\<close>

theorem empty_result_not_distinguished:
  "body_empty_string \<noteq> []
   \<and> \<not> list_all is_white_space body_empty_string
   \<and> fst (sendHttpRequest sample_builtins scripted GET (SearchPath []) None 3 1000
            (initial [Response 200 body_empty_string])) = Inr (JStr [])
   \<and> fst (sendHttpRequest sample_builtins scripted GET (SearchPath []) None 3 1000
            (initial [Response 200 []])) = Inr (JStr [])"
proof (intro conjI)
  show "body_empty_string \<noteq> []"
    by (simp add: body_empty_string_def)
  show "\<not> list_all is_white_space body_empty_string"
    by (simp add: body_empty_string_def is_white_space_def is_line_terminator_def)
  show "fst (sendHttpRequest sample_builtins scripted GET (SearchPath []) None 3 1000
               (initial [Response 200 body_empty_string])) = Inr (JStr [])"
    by (simp add: sendHttpRequest.simps initial_def sample_resolved)
  show "fst (sendHttpRequest sample_builtins scripted GET (SearchPath []) None 3 1000
               (initial [Response 200 []])) = Inr (JStr [])"
    by (simp add: sendHttpRequest.simps initial_def sample_resolved)
qed

section \<open>Properties of the orchestrator\<close>

text \<open>
  Each helper sends its own request and nothing else, and a helper that returns has sent
  it. A helper whose path template throws sends nothing.
\<close>

lemma send_sent_only:
  "sendHttpRequest B srv m p d 3 1000 s = (res, s') \<Longrightarrow> sent_only m p d s s'"
  unfolding sent_only_def by (rule send_frame)

lemma sent_only_at_most: "sent_only m p d s s' \<Longrightarrow> sent_at_most m p d s s'"
  by (auto simp: sent_only_def sent_at_most_def)

lemma sent_at_most_refl: "sent_at_most m p d s s"
  by (simp add: sent_at_most_def)


lemma search_frame_returned:
  "searchJiraIssues B srv jql s = (Inr existingIssues, s') \<Longrightarrow>
     sent_only GET (SearchPath jql) None s s'"
  by (auto simp: searchJiraIssues_def split: prod.splits sum.splits if_splits
      dest: send_sent_only)

lemma sprint_frame:
  "getSprintId B srv cfg n s = (res, s') \<Longrightarrow>
     sent_only GET (BoardSprintsPath (board_id cfg)) None s s'"
  by (auto simp: getSprintId_def split: prod.splits sum.splits if_splits dest: send_sent_only)


lemma update_frame_called:
  "updateJiraIssue B srv key description s = (res, s') \<Longrightarrow> \<not> throws_ToString key \<Longrightarrow>
     sent_only PUT (IssuePath key)
       (Some (JObj [(js ''fields'', JObj [(js ''description'', JStr description)])])) s s'"
  by (auto simp: updateJiraIssue_def split: prod.splits sum.splits dest: send_sent_only)

lemma create_frame:
  "createNewJiraIssue B srv cfg description sprintId s = (res, s') \<Longrightarrow>
     \<exists>d. sent_only POST CreateIssuePath d s s'"
  by (auto simp: createNewJiraIssue_def split: prod.splits sum.splits if_splits
      dest: send_sent_only)

lemma assign_frame:
  "addIssueToSprint B srv key sprintId s = (res, s') \<Longrightarrow>
     sent_at_most POST (SprintIssuePath sprintId) (Some (JObj [(js ''issues'', JArr [key])])) s s'"
  by (auto simp: addIssueToSprint_def sent_at_most_refl
      split: prod.splits sum.splits if_splits dest: send_sent_only intro: sent_only_at_most)

lemma assign_frame_called:
  "addIssueToSprint B srv key sprintId s = (res, s') \<Longrightarrow> \<not> throws_ToString sprintId \<Longrightarrow>
     sent_only POST (SprintIssuePath sprintId) (Some (JObj [(js ''issues'', JArr [key])])) s s'"
  by (auto simp: addIssueToSprint_def split: prod.splits sum.splits if_splits
      dest: send_sent_only)

lemma assign_thrown:
  "addIssueToSprint B srv key sprintId s = (res, s') \<Longrightarrow> throws_ToString sprintId \<Longrightarrow>
     res = Inl TypeError \<and> s' = s"
  by (simp add: addIssueToSprint_def)

text \<open>A GET is none of the mutating calls.\<close>

lemma get_events_harmless:
  "list_all (event_of GET p d) evs \<Longrightarrow> ev \<in> set evs \<Longrightarrow>
     \<not> is_create ev \<and> \<not> is_update ev \<and> \<not> is_assign ev"
  by (cases ev) (auto simp: list_all_iff)

text \<open>Without a sprint of the requested name, sprint resolution throws.\<close>

lemma find_sprint_absent:
  "\<forall>x\<in>set xs. get_prop x (js ''name'') \<noteq> Inr (JStr n) \<Longrightarrow>
     find_sprint xs n = Inr JUndefined \<or> (\<exists>e. find_sprint xs n = Inl e)"
  by (induction xs) (auto split: sum.splits)

lemma getSprintId_absent:
  assumes "sendHttpRequest B srv GET (BoardSprintsPath (board_id cfg)) None 3 1000 s1
             = (Inr response, s2)"
    and "get_prop response (js ''values'') = Inr (JArr sprints)"
    and "\<forall>x\<in>set sprints. get_prop x (js ''name'') \<noteq> Inr (JStr n)"
  shows "\<exists>e. getSprintId B srv cfg n s1 = (Inl e, s2)"
  using assms(1,2) find_sprint_absent [OF assms(3)]
  by (auto simp: getSprintId_def)

lemma get_only_no_mutation:
  assumes "sent_only GET p d s s'"
    and "\<forall>ev\<in>set (trace s). \<not> is_update ev \<and> \<not> is_assign ev \<and> \<not> is_create ev"
  shows "\<forall>ev\<in>set (trace s'). \<not> is_update ev \<and> \<not> is_assign ev \<and> \<not> is_create ev"
  using assms get_events_harmless by (fastforce simp: sent_only_def)








text \<open>
  C5: when the fetched list of future sprints holds no sprint with exactly the requested
  name, the run fails, sets no output, and attempts neither an issue creation nor an
  issue update nor a sprint assignment.
\<close>

theorem absent_sprint_no_mutation:
  assumes valid: "validateInputs cfg = Inr ()"
    and search: "searchJiraIssues B srv (jql_of cfg) (initial w) = (Inr existingIssues, s1)"
    and fetch: "sendHttpRequest B srv GET (BoardSprintsPath (board_id cfg)) None 3 1000 s1
                  = (Inr response, s2)"
    and listed: "get_prop response (js ''values'') = Inr (JArr sprints)"
    and absent: "\<forall>x\<in>set sprints. get_prop x (js ''name'') \<noteq> Inr (JStr (sprint_name cfg))"
  shows "failed (run B srv cfg formattedTimestamp w) \<noteq> None
       \<and> issue_key (run B srv cfg formattedTimestamp w) = None
       \<and> (\<forall>ev\<in>set (trace (run B srv cfg formattedTimestamp w)).
             \<not> is_create ev \<and> \<not> is_update ev \<and> \<not> is_assign ev)"
proof -
  obtain e where sprint: "getSprintId B srv cfg (sprint_name cfg) s1 = (Inl e, s2)"
    using getSprintId_absent [OF fetch listed absent] by blast
  have fin: "run B srv cfg formattedTimestamp w = s2\<lparr>failed := Some e\<rparr>"
    using valid search sprint
    by (simp add: run_def createOrUpdateJiraStory_def try_block_def)
  have one: "sent_only GET (SearchPath (jql_of cfg)) None (initial w) s1"
    using search by (rule search_frame_returned)
  have two: "sent_only GET (BoardSprintsPath (board_id cfg)) None s1 s2"
    using fetch by (rule send_sent_only)
  obtain evs1 evs2 where tr: "trace s2 =
      Attempt GET (SearchPath (jql_of cfg)) None 3 1000 # evs1
        @ Attempt GET (BoardSprintsPath (board_id cfg)) None 3 1000 # evs2"
    and evs1: "list_all (event_of GET (SearchPath (jql_of cfg)) None) evs1"
    and evs2: "list_all (event_of GET (BoardSprintsPath (board_id cfg)) None) evs2"
    using one two by (auto simp: sent_only_def initial_def)
  have key: "issue_key s2 = None"
    using one two by (simp add: sent_only_def initial_def)
  have "\<not> is_create ev \<and> \<not> is_update ev \<and> \<not> is_assign ev" if "ev \<in> set (trace s2)" for ev
    using that tr get_events_harmless [OF evs1] get_events_harmless [OF evs2] by auto
  then show ?thesis
    using fin key by simp
qed

text \<open>
  The sample run in which the board has the future sprint \<open>sprint 1\<close> only, and
  \<open>Sprint 1\<close> is asked for.
\<close>

theorem absent_sprint_no_mutation_witness:
  "failed (run sample_builtins scripted sample_cfg (js ''02.01.2024, 11:00:00'')
             script_absent_sprint) \<noteq> None
   \<and> issue_key (run sample_builtins scripted sample_cfg (js ''02.01.2024, 11:00:00'')
                  script_absent_sprint) = None
   \<and> list_all (\<lambda>ev. \<not> is_create ev \<and> \<not> is_update ev \<and> \<not> is_assign ev)
        (trace (run sample_builtins scripted sample_cfg (js ''02.01.2024, 11:00:00'')
                  script_absent_sprint))"
proof -
  let ?s1 = "\<lparr>world = [Response 200 body_other_sprints], trace = [search_attempt],
              issue_key = None, failed = None\<rparr>"
  let ?s2 = "\<lparr>world = [], trace = [search_attempt, sprints_attempt],
              issue_key = None, failed = None\<rparr>"
  have search: "searchJiraIssues sample_builtins scripted (jql_of sample_cfg)
                  (initial script_absent_sprint) = (Inr (JArr [english_issue]), ?s1)"
    by (simp add: run_defs sample_resolved)
  have fetch: "sendHttpRequest sample_builtins scripted GET (BoardSprintsPath (board_id sample_cfg))
                 None 3 1000 ?s1 = (Inr (sprints_response 8 ''sprint 1''), ?s2)"
    by (simp add: run_defs sample_resolved)
  have listed: "get_prop (sprints_response 8 ''sprint 1'') (js ''values'')
      = Inr (JArr [JObj [(js ''id'', JNum 8), (js ''name'', JStr (js ''sprint 1''))]])"
    by (simp add: run_defs)
  have absent: "\<forall>x\<in>set [JObj [(js ''id'', JNum 8), (js ''name'', JStr (js ''sprint 1''))]].
                  get_prop x (js ''name'') \<noteq> Inr (JStr (sprint_name sample_cfg))"
    by (simp add: run_defs)
  show ?thesis
    using absent_sprint_no_mutation [OF sample_valid search fetch listed absent]
    by (simp add: list_all_iff)
qed

text \<open>
  C2, as stated, fails in two ways. Sprint resolution comes between the search and the
  comparison, so a run whose search returns an issue with a matching description ends in
  failure there when the sprint is absent, and no \<open>issue_key\<close> output is set. And when
  the sprint resolves, line 203 interpolates the key of the issue into a log line before
  the output is set: for the key \<open>{"toString": 1}\<close> the conversion throws a \<open>TypeError\<close>,
  and the run fails without output as well.
\<close>

theorem unchanged_issue_absent_sprint_no_output:
  "fst (searchJiraIssues sample_builtins scripted (jql_of sample_cfg)
          (initial script_absent_sprint)) = Inr (JArr [english_issue])
   \<and> get_prop english_issue (js ''key'') = Inr (JStr (js ''PROJ-5''))
   \<and> removeTimestamp (js ''Fix login\<newline>\<newline>Last updated: 01.01.2024 10:00:00'')
       = removeTimestamp (issue_description sample_cfg)
   \<and> issue_key (run sample_builtins scripted sample_cfg (js ''02.01.2024, 11:00:00'')
                  script_absent_sprint) = None
   \<and> failed (run sample_builtins scripted sample_cfg (js ''02.01.2024, 11:00:00'')
                script_absent_sprint) = Some (SprintNotFound (js ''Sprint 1''))
   \<and> fst (searchJiraIssues sample_builtins scripted (jql_of sample_cfg)
            (initial script_odd_key)) = Inr (JArr [odd_key_issue])
   \<and> get_prop odd_key_issue (js ''key'') = Inr (JObj [(js ''toString'', JNum 1)])
   \<and> get_prop odd_key_issue (js ''fields'')
       = Inr (JObj [(js ''description'', JStr (issue_description sample_cfg))])
   \<and> trace (run sample_builtins scripted sample_cfg (js ''02.01.2024, 11:00:00'')
               script_odd_key) = [search_attempt, sprints_attempt]
   \<and> issue_key (run sample_builtins scripted sample_cfg (js ''02.01.2024, 11:00:00'')
                  script_odd_key) = None
   \<and> failed (run sample_builtins scripted sample_cfg (js ''02.01.2024, 11:00:00'')
                script_odd_key) = Some TypeError"
  by (simp add: run_defs sample_resolved)

text \<open>
  C2 (amended): when the search returns at least one issue and the stripped stored
  description of the first one equals the stripped desired description, the run makes
  no PUT call and no sprint-assignment call. If, in addition, the sprint resolution that
  follows the search yields a sprint id, the run sends no further request, and then: when
  the key of that first issue converts to a string, the run succeeds and its \<open>issue_key\<close>
  output is that key; when the conversion throws, the run fails with that \<open>TypeError\<close>
  and sets no output.
\<close>

theorem unchanged_issue_left_alone:
  assumes valid: "validateInputs cfg = Inr ()"
    and search: "searchJiraIssues B srv (jql_of cfg) (initial w)
                   = (Inr (JArr (existingIssue # others)), s1)"
    and flds: "get_prop existingIssue (js ''fields'') = Inr issueFields"
    and descr: "get_prop issueFields (js ''description'') = Inr description"
    and stored: "js_or description (JStr []) = JStr stored"
    and same: "removeTimestamp stored = removeTimestamp (issue_description cfg)"
    and key: "get_prop existingIssue (js ''key'') = Inr key"
  shows "(\<forall>ev\<in>set (trace (run B srv cfg formattedTimestamp w)). \<not> is_update ev \<and> \<not> is_assign ev)
       \<and> (\<forall>sprintId s2.
            getSprintId B srv cfg (sprint_name cfg) s1 = (Inr sprintId, s2) \<and> truthy sprintId \<longrightarrow>
              trace (run B srv cfg formattedTimestamp w) = trace s2
              \<and> (if throws_ToString key
                 then issue_key (run B srv cfg formattedTimestamp w) = None
                      \<and> failed (run B srv cfg formattedTimestamp w) = Some TypeError
                 else issue_key (run B srv cfg formattedTimestamp w) = Some key
                      \<and> failed (run B srv cfg formattedTimestamp w) = None))"
proof -
  obtain res s2 where sprint: "getSprintId B srv cfg (sprint_name cfg) s1 = (res, s2)"
    by (cases "getSprintId B srv cfg (sprint_name cfg) s1")
  have one: "sent_only GET (SearchPath (jql_of cfg)) None (initial w) s1"
    using search by (rule search_frame_returned)
  have two: "sent_only GET (BoardSprintsPath (board_id cfg)) None s1 s2"
    using sprint by (rule sprint_frame)
  have quiet: "\<forall>ev\<in>set (trace s2). \<not> is_update ev \<and> \<not> is_assign ev \<and> \<not> is_create ev"
    by (rule get_only_no_mutation [OF two], rule get_only_no_mutation [OF one])
       (simp add: initial_def)
  have unfailed: "failed s2 = None" and unset: "issue_key s2 = None"
    using one two by (simp_all add: sent_only_def initial_def)
  have branch: "existing_issue_branch B srv cfg (updatedDescription_of cfg formattedTimestamp)
      sprintId (JArr (existingIssue # others)) s2
        = (if throws_ToString key then (Inl TypeError, s2)
           else (Inr (), s2\<lparr>issue_key := Some key\<rparr>))"
    for sprintId
    using flds descr stored same key by (simp add: existing_issue_branch_def)
  have fin: "trace (run B srv cfg formattedTimestamp w) = trace s2"
    using valid search sprint branch
    by (cases res) (simp_all add: run_def createOrUpdateJiraStory_def try_block_def Let_def)
  have out: "if throws_ToString key
             then issue_key (run B srv cfg formattedTimestamp w) = None
                  \<and> failed (run B srv cfg formattedTimestamp w) = Some TypeError
             else issue_key (run B srv cfg formattedTimestamp w) = Some key
                  \<and> failed (run B srv cfg formattedTimestamp w) = None"
    if "res = Inr sprintId" and "truthy sprintId" for sprintId
    using that valid search sprint branch unfailed unset
    by (simp add: run_def createOrUpdateJiraStory_def try_block_def Let_def)
  show ?thesis
    using quiet fin out sprint by auto
qed

text \<open>
  The sample run of the specification's scenario: the stored description of PROJ-5 is
  \<open>"Fix login\n\nLast updated: 01.01.2024 10:00:00"\<close>, the desired one is
  \<open>"Fix login"\<close>.
\<close>

theorem unchanged_issue_left_alone_witness:
  "list_all (\<lambda>ev. \<not> is_update ev \<and> \<not> is_assign ev)
     (trace (run sample_builtins scripted sample_cfg (js ''02.01.2024, 11:00:00'')
               script_unchanged))
   \<and> issue_key (run sample_builtins scripted sample_cfg (js ''02.01.2024, 11:00:00'')
                  script_unchanged) = Some (JStr (js ''PROJ-5''))
   \<and> failed (run sample_builtins scripted sample_cfg (js ''02.01.2024, 11:00:00'')
                script_unchanged) = None
   \<and> trace (run sample_builtins scripted sample_cfg (js ''02.01.2024, 11:00:00'')
               script_unchanged) = [search_attempt, sprints_attempt]"
proof -
  let ?stored = "js ''Fix login\<newline>\<newline>Last updated: 01.01.2024 10:00:00''"
  let ?s1 = "\<lparr>world = [Response 200 body_sprints], trace = [search_attempt],
              issue_key = None, failed = None\<rparr>"
  let ?s2 = "\<lparr>world = [], trace = [search_attempt, sprints_attempt],
              issue_key = None, failed = None\<rparr>"
  have search: "searchJiraIssues sample_builtins scripted (jql_of sample_cfg)
                  (initial script_unchanged) = (Inr (JArr (english_issue # [])), ?s1)"
    by (simp add: run_defs sample_resolved)
  have flds: "get_prop english_issue (js ''fields'')
                = Inr (JObj [(js ''description'', JStr ?stored)])"
    by (simp add: run_defs)
  have descr: "get_prop (JObj [(js ''description'', JStr ?stored)]) (js ''description'')
                 = Inr (JStr ?stored)"
    by (simp add: run_defs)
  have stored: "js_or (JStr ?stored) (JStr []) = JStr ?stored"
    by (simp add: run_defs)
  have same: "removeTimestamp ?stored = removeTimestamp (issue_description sample_cfg)"
    by (simp add: run_defs)
  have key: "get_prop english_issue (js ''key'') = Inr (JStr (js ''PROJ-5''))"
    by (simp add: run_defs)
  have sprint: "getSprintId sample_builtins scripted sample_cfg (sprint_name sample_cfg) ?s1
                  = (Inr (JNum 7), ?s2) \<and> truthy (JNum 7)"
    by (simp add: run_defs sample_resolved)
  note main = unchanged_issue_left_alone [OF sample_valid search flds descr stored same key,
      of "js ''02.01.2024, 11:00:00''"]
  show ?thesis
    using main [THEN conjunct1] main [THEN conjunct2, rule_format, OF sprint]
    by (simp add: list_all_iff)
qed




text \<open>
  C10: in the create path the POST of the new issue comes before the sprint-assignment
  call, and the output is set after both. When the creation succeeds and the
  sprint-assignment call fails, the run ends in failure with no \<open>issue_key\<close> output,
  although the creation request has been sent and answered: the trace holds the attempts
  of the creation request and, after them, those of the assignment request, which are
  none when the sprint id does not convert to a string and \<open>addIssueToSprint\<close> throws
  before it sends anything.
\<close>

theorem created_issue_unassigned_fails:
  assumes valid: "validateInputs cfg = Inr ()"
    and search: "searchJiraIssues B srv (jql_of cfg) (initial w) = (Inr existingIssues, s1)"
    and len: "get_prop existingIssues (js ''length'') = Inr len"
    and none: "js_gt_zero B len = Inr False"
    and sprint: "getSprintId B srv cfg (sprint_name cfg) s1 = (Inr sprintId, s2)"
    and target: "truthy sprintId"
    and created: "createNewJiraIssue B srv cfg (updatedDescription_of cfg formattedTimestamp)
                    sprintId s2 = (Inr newIssue, s3)"
    and key: "get_prop newIssue (js ''key'') = Inr key"
    and unassigned: "addIssueToSprint B srv key sprintId s3 = (Inl e, s4)"
  shows "run B srv cfg formattedTimestamp w = s4\<lparr>failed := Some e\<rparr>
       \<and> issue_key s4 = None
       \<and> (\<exists>issueData evs1 evs2.
            trace s4 = trace s2 @ Attempt POST CreateIssuePath issueData 3 1000 # evs1 @ evs2
            \<and> list_all (event_of POST CreateIssuePath issueData) evs1
            \<and> (if throws_ToString sprintId then evs2 = [] \<and> e = TypeError
               else \<exists>more. evs2 = Attempt POST (SprintIssuePath sprintId)
                                     (Some (JObj [(js ''issues'', JArr [key])])) 3 1000 # more
                      \<and> list_all (event_of POST (SprintIssuePath sprintId)
                                    (Some (JObj [(js ''issues'', JArr [key])]))) more))"
proof -
  have fin: "run B srv cfg formattedTimestamp w = s4\<lparr>failed := Some e\<rparr>"
    using assms
    by (simp add: run_def createOrUpdateJiraStory_def try_block_def new_issue_branch_def Let_def)
  have one: "sent_only GET (SearchPath (jql_of cfg)) None (initial w) s1"
    using search by (rule search_frame_returned)
  have two: "sent_only GET (BoardSprintsPath (board_id cfg)) None s1 s2"
    using sprint by (rule sprint_frame)
  obtain issueData where three: "sent_only POST CreateIssuePath issueData s2 s3"
    using create_frame [OF created] by blast
  have four: "sent_at_most POST (SprintIssuePath sprintId)
                (Some (JObj [(js ''issues'', JArr [key])])) s3 s4"
    using unassigned by (rule assign_frame)
  have unset: "issue_key s4 = None"
    using one two three four by (simp add: sent_only_def sent_at_most_def initial_def)
  obtain evs1 where t3: "trace s3 = trace s2 @ Attempt POST CreateIssuePath issueData 3 1000 # evs1"
    and e1: "list_all (event_of POST CreateIssuePath issueData) evs1"
    using three by (auto simp: sent_only_def)
  obtain evs2 where t4: "trace s4 = trace s3 @ evs2"
    using four by (auto simp: sent_at_most_def)
  have e2: "if throws_ToString sprintId then evs2 = [] \<and> e = TypeError
            else \<exists>more. evs2 = Attempt POST (SprintIssuePath sprintId)
                                  (Some (JObj [(js ''issues'', JArr [key])])) 3 1000 # more
                   \<and> list_all (event_of POST (SprintIssuePath sprintId)
                                 (Some (JObj [(js ''issues'', JArr [key])]))) more"
  proof (cases "throws_ToString sprintId")
    case True
    then show ?thesis
      using assign_thrown [OF unassigned] t4 by simp
  next
    case False
    then show ?thesis
      using assign_frame_called [OF unassigned] t4 by (auto simp: sent_only_def)
  qed
  have "trace s4 = trace s2 @ Attempt POST CreateIssuePath issueData 3 1000 # evs1 @ evs2"
    using t3 t4 by simp
  then show ?thesis
    using fin unset e1 e2 by blast
qed

text \<open>
  The sample run in which the search finds nothing, the issue PROJ-6 is created and the
  sprint-assignment call is answered with status 404.
\<close>

theorem created_issue_unassigned_fails_witness:
  "run sample_builtins scripted sample_cfg (js ''02.01.2024, 11:00:00'') script_unassigned
     = \<lparr>world = [],
        trace = [search_attempt, sprints_attempt,
                 create_attempt (js ''Fix login\<newline>\<newline>Zuletzt aktualisiert: 02.01.2024, 11:00:00''),
                 assign_attempt ''PROJ-6''],
        issue_key = None,
        failed = Some (HttpError 404 (js ''Not Found''))\<rparr>"
proof -
  let ?written = "js ''Fix login\<newline>\<newline>Zuletzt aktualisiert: 02.01.2024, 11:00:00''"
  let ?s1 = "\<lparr>world = [Response 200 body_sprints, Response 201 body_created,
                          Response 404 (js ''Not Found'')],
               trace = [search_attempt], issue_key = None, failed = None\<rparr>"
  let ?s2 = "\<lparr>world = [Response 201 body_created, Response 404 (js ''Not Found'')],
               trace = [search_attempt, sprints_attempt], issue_key = None, failed = None\<rparr>"
  let ?s3 = "\<lparr>world = [Response 404 (js ''Not Found'')],
               trace = [search_attempt, sprints_attempt, create_attempt ?written],
               issue_key = None, failed = None\<rparr>"
  let ?s4 = "\<lparr>world = [],
               trace = [search_attempt, sprints_attempt, create_attempt ?written,
                        assign_attempt ''PROJ-6''],
               issue_key = None, failed = None\<rparr>"
  have search: "searchJiraIssues sample_builtins scripted (jql_of sample_cfg)
                  (initial script_unassigned) = (Inr (JArr []), ?s1)"
    by (simp add: run_defs sample_resolved)
  have len: "get_prop (JArr []) (js ''length'') = Inr (JNum 0)"
    by simp
  have none: "js_gt_zero sample_builtins (JNum 0) = Inr False"
    by simp
  have sprint: "getSprintId sample_builtins scripted sample_cfg (sprint_name sample_cfg) ?s1
                  = (Inr (JNum 7), ?s2)"
    by (simp add: run_defs sample_resolved)
  have target: "truthy (JNum 7)"
    by simp
  have created: "createNewJiraIssue sample_builtins scripted sample_cfg
                   (updatedDescription_of sample_cfg (js ''02.01.2024, 11:00:00'')) (JNum 7) ?s2
                   = (Inr (JObj [(js ''key'', JStr (js ''PROJ-6''))]), ?s3)"
    by (simp add: run_defs sample_resolved)
  have key: "get_prop (JObj [(js ''key'', JStr (js ''PROJ-6''))]) (js ''key'')
               = Inr (JStr (js ''PROJ-6''))"
    by simp
  have unassigned: "addIssueToSprint sample_builtins scripted (JStr (js ''PROJ-6'')) (JNum 7) ?s3
                      = (Inl (HttpError 404 (js ''Not Found'')), ?s4)"
    by (simp add: run_defs sample_resolved)
  show ?thesis
    using created_issue_unassigned_fails
      [OF sample_valid search len none sprint target created key unassigned, THEN conjunct1]
    by simp
qed

section \<open>Where the code departs from the claims\<close>

text \<open>
  Whatever the clock says at either run: when the first issue the search returns holds
  the description that an earlier run wrote, its key converts to a string, and the sprint
  resolves, the run sends the PUT that rewrites the description.
\<close>

lemma updatedDescription_truthy: "truthy (JStr (updatedDescription_of cfg t))"
  by (simp add: updatedDescription_of_def js_def)

lemma rerun_always_updates:
  assumes valid: "validateInputs cfg = Inr ()"
    and search: "searchJiraIssues B srv (jql_of cfg) (initial w)
                   = (Inr (JArr (existingIssue # others)), s1)"
    and flds: "get_prop existingIssue (js ''fields'') = Inr issueFields"
    and descr: "get_prop issueFields (js ''description'')
                  = Inr (JStr (updatedDescription_of cfg earlierTimestamp))"
    and key: "get_prop existingIssue (js ''key'') = Inr key"
    and shown: "\<not> throws_ToString key"
    and sprint: "getSprintId B srv cfg (sprint_name cfg) s1 = (Inr sprintId, s2)"
    and target: "truthy sprintId"
  shows "\<exists>evs. trace (run B srv cfg formattedTimestamp w)
           = trace s2 @ Attempt PUT (IssuePath key)
               (Some (JObj [(js ''fields'',
                  JObj [(js ''description'',
                         JStr (updatedDescription_of cfg formattedTimestamp))])])) 3 1000 # evs"
proof -
  let ?u = "updatedDescription_of cfg formattedTimestamp"
  obtain res3 s3 where upd: "updateJiraIssue B srv key ?u s2 = (res3, s3)"
    by (cases "updateJiraIssue B srv key ?u s2")
  obtain evs3 where t3: "trace s3 = trace s2 @ Attempt PUT (IssuePath key)
      (Some (JObj [(js ''fields'', JObj [(js ''description'', JStr ?u)])])) 3 1000 # evs3"
    using update_frame_called [OF upd shown] by (auto simp: sent_only_def)
  obtain res s where branch: "existing_issue_branch B srv cfg ?u sprintId
      (JArr (existingIssue # others)) s2 = (res, s)"
    by (cases "existing_issue_branch B srv cfg ?u sprintId (JArr (existingIssue # others)) s2")
  have "\<exists>evs. trace s = trace s3 @ evs"
  proof (cases res3)
    case (Inl e)
    then show ?thesis
      using branch flds descr key upd updatedDescription_truthy [of cfg earlierTimestamp]
        written_description_differs [of cfg earlierTimestamp]
      by (auto simp: existing_issue_branch_def js_or_def)
  next
    case (Inr updated)
    obtain res4 s4 where asg: "addIssueToSprint B srv key sprintId s3 = (res4, s4)"
      by (cases "addIssueToSprint B srv key sprintId s3")
    obtain evs4 where "trace s4 = trace s3 @ evs4"
      using assign_frame [OF asg] by (auto simp: sent_at_most_def)
    then show ?thesis
      using branch flds descr key upd Inr asg updatedDescription_truthy [of cfg earlierTimestamp]
        written_description_differs [of cfg earlierTimestamp]
      by (cases res4) (auto simp: existing_issue_branch_def js_or_def)
  qed
  moreover have "trace (run B srv cfg formattedTimestamp w) = trace s"
    using valid search sprint target branch
    by (cases res) (simp_all add: run_def createOrUpdateJiraStory_def try_block_def Let_def)
  ultimately show ?thesis
    using t3 by auto
qed

text \<open>
  C1: a re-run with the same desired description against the description a previous run
  stored strips both sides, finds them equal and sends no PUT. The code does not: the
  first sample run creates the issue with the trailer \<open>"\n\nZuletzt aktualisiert: ..."\<close>,
  \<open>removeTimestamp\<close> removes a trailer \<open>"\n\nLast updated: ..."\<close> only, and the second
  sample run, with the same desired description \<open>"Fix login"\<close> and the issue as the
  first run left it, sends a PUT with a fresh timestamp.
\<close>

theorem rerun_rewrites_description:
  "filter is_create
     (trace (run sample_builtins scripted sample_cfg (js ''01.01.2024, 10:00:00'')
               [Response 200 body_no_issues, Response 200 body_sprints,
                Response 201 body_created, Response 204 []]))
     = [create_attempt (js ''Fix login\<newline>\<newline>Zuletzt aktualisiert: 01.01.2024, 10:00:00'')]
   \<and> resolve_body sample_builtins body_created = JObj [(js ''key'', JStr (js ''PROJ-6''))]
   \<and> resolve_body sample_builtins body_issue_german
       = search_response
           [issue_with ''PROJ-6''
              (js ''Fix login\<newline>\<newline>Zuletzt aktualisiert: 01.01.2024, 10:00:00'')]
   \<and> issue_description sample_cfg = js ''Fix login''
   \<and> filter is_update
       (trace (run sample_builtins scripted sample_cfg (js ''02.01.2024, 11:00:00'') script_rerun))
     = [update_attempt ''PROJ-6''
          (js ''Fix login\<newline>\<newline>Zuletzt aktualisiert: 02.01.2024, 11:00:00'')]"
  by (simp add: run_defs sample_resolved)

text \<open>The value of \<open>retry_count\<close> has no effect on a run.\<close>

lemma retry_count_ignored:
  "run B srv (cfg\<lparr>retry_count := r\<rparr>) formattedTimestamp w = run B srv cfg formattedTimestamp w"
proof -
  have "validateInputs (cfg\<lparr>retry_count := r\<rparr>) = validateInputs cfg"
    by (simp add: validateInputs_def requiredInputs_def)
  moreover have "jql_of (cfg\<lparr>retry_count := r\<rparr>) = jql_of cfg"
    by (simp add: jql_of_def)
  moreover have "updatedDescription_of (cfg\<lparr>retry_count := r\<rparr>) = updatedDescription_of cfg"
    by (simp add: updatedDescription_of_def fun_eq_iff)
  moreover have "getSprintId B srv (cfg\<lparr>retry_count := r\<rparr>) = getSprintId B srv cfg"
    by (simp add: getSprintId_def fun_eq_iff cong: sum.case_cong prod.case_cong)
  moreover have "existing_issue_branch B srv (cfg\<lparr>retry_count := r\<rparr>)
                   = existing_issue_branch B srv cfg"
    by (simp add: existing_issue_branch_def fun_eq_iff Let_def cong: sum.case_cong if_cong)
  moreover have "new_issue_branch B srv (cfg\<lparr>retry_count := r\<rparr>) = new_issue_branch B srv cfg"
    by (simp add: new_issue_branch_def createNewJiraIssue_def fun_eq_iff Let_def
        cong: sum.case_cong prod.case_cong)
  ultimately show ?thesis
    by (simp add: run_def createOrUpdateJiraStory_def try_block_def Let_def
        cong: sum.case_cong prod.case_cong if_cong)
qed

text \<open>
  C9: the retry budget of the transport is the configured retry count, and 3 when none
  is given. The code does not read the input: with \<open>retry_count\<close> set to 5 and a
  service that answers 429 to every attempt, the request is sent four times, with the
  budgets 3, 2, 1 and 0 of the default, and fails.
\<close>

theorem retry_count_not_read:
  "trace (run sample_builtins (always (Response 429 [])) (sample_cfg\<lparr>retry_count := js ''5''\<rparr>)
            (js ''02.01.2024, 11:00:00'') ())
     = [Attempt GET (SearchPath (jql_of sample_cfg)) None 3 1000, Wait 1000,
        Attempt GET (SearchPath (jql_of sample_cfg)) None 2 2000, Wait 2000,
        Attempt GET (SearchPath (jql_of sample_cfg)) None 1 4000, Wait 4000,
        Attempt GET (SearchPath (jql_of sample_cfg)) None 0 8000]
   \<and> failed (run sample_builtins (always (Response 429 [])) (sample_cfg\<lparr>retry_count := js ''5''\<rparr>)
               (js ''02.01.2024, 11:00:00'') ())
     = Some (HttpError 429 [])"
  by (simp add: run_defs sample_resolved always_def jql_of_retry_count)

end
